theory Spec2Isabelle
  imports Main "HOL-Library.Word" "HOL-Library.AList"
begin

section \<open>JavaScript values, strings and bytes\<close>

text \<open>
  The live-room routes (\<^verbatim>\<open>src/routes/roomRoutes.js\<close>) are embedded function by function.
  JavaScript is dynamically typed, so the arguments that the code inspects with \<^verbatim>\<open>!x\<close> and
  \<^verbatim>\<open>typeof x\<close> are values of \<open>jsval\<close>. A number is a double: \<open>JNum n\<close> is the double whose
  value is the integer \<open>n\<close>, \<open>JInf\<close> is plus or minus Infinity, \<open>JNaN\<close> is NaN; doubles
  with a fraction are not values of the model, nor are objects and arrays. Sums and
  products are rounded as the source rounds them (section Doubles). A string is a list of
  code units below 256 (the Latin-1 range), so \<open>length\<close> is the \<^verbatim>\<open>.length\<close> of the source
  and differs from the number of UTF-8 bytes as soon as a code unit is 128 or more.
\<close>

type_synonym byte = "8 word"

datatype jsval = JUndefined | JNull | JBool bool | JNum int | JInf bool | JNaN | JStr string

text \<open>
  What the source can catch. \<open>Error m\<close> is \<^verbatim>\<open>new Error(m)\<close>, thrown by the source itself;
  the others are thrown by Node and V8 and are named by their code (the value that was out
  of range comes with \<open>ERR_OUT_OF_RANGE\<close>). Their message is Node's text and is not
  spelled out here: a response that sends \<^verbatim>\<open>err.message\<close> is modelled by the error it sends
  the message of.
\<close>

datatype js_error =
    Error string
  | ERR_OUT_OF_RANGE int
  | ERR_BUFFER_OUT_OF_BOUNDS
  | ERR_CRYPTO_INVALID_IV
  | ERR_CRYPTO_INVALID_KEYLEN
  | ERR_INVALID_ARG_TYPE
  | TypeError_property_of_undefined

text \<open>\<^verbatim>\<open>!x\<close> is \<open>\<not> truthy x\<close>: undefined, null, false, 0, NaN and the empty string are falsy.\<close>

fun truthy :: "jsval \<Rightarrow> bool" where
  "truthy JUndefined = False"
| "truthy JNull = False"
| "truthy (JBool b) = b"
| "truthy (JNum n) = (n \<noteq> 0)"
| "truthy (JInf neg) = True"
| "truthy JNaN = False"
| "truthy (JStr s) = (s \<noteq> [])"

fun typeof :: "jsval \<Rightarrow> string" where
  "typeof JUndefined = ''undefined''"
| "typeof JNull = ''object''"
| "typeof (JBool b) = ''boolean''"
| "typeof (JNum n) = ''number''"
| "typeof (JInf neg) = ''number''"
| "typeof JNaN = ''number''"
| "typeof (JStr s) = ''string''"

text \<open>\<^verbatim>\<open>x.length\<close> of a truthy primitive: defined on strings only.\<close>

fun js_length :: "jsval \<Rightarrow> nat option" where
  "js_length (JStr s) = Some (length s)"
| "js_length v = None"

text \<open>An exception that propagates: the first \<open>Inl\<close> ends the computation.\<close>

definition bindE :: "js_error + 'a \<Rightarrow> ('a \<Rightarrow> js_error + 'b) \<Rightarrow> js_error + 'b" where
  "bindE m f = (case m of Inl e \<Rightarrow> Inl e | Inr x \<Rightarrow> f x)"

subsection \<open>Doubles\<close>

text \<open>
  A double has 53 significant bits. \<open>round53 n\<close> is the double nearest to the natural
  number \<open>n\<close>, ties to the even significand: \<open>n\<close> loses its \<open>shift53 n\<close> low bits.
  \<open>to_double\<close> is the same for every integer, and \<open>js_add\<close> is the sum of two
  integer-valued doubles as IEEE 754 defines it, the exact sum rounded. The model leaves
  out overflow to Infinity in sums: it takes a summand of at least \<open>2 ^ 970\<close>, and the
  summands here are a time in seconds and a lifetime.
\<close>

function shift53 :: "int \<Rightarrow> nat" where
  "shift53 n = (if n < 2 ^ 53 then 0 else Suc (shift53 (n div 2)))"
  by pat_completeness auto
termination
  by (relation "measure nat") auto

declare shift53.simps [simp del]

definition round53 :: "int \<Rightarrow> int" where
  "round53 n =
     (let s = shift53 n; q = n div 2 ^ s; r = n mod 2 ^ s
      in (if 2 ^ s < 2 * r \<or> (2 * r = 2 ^ s \<and> odd q) then q + 1 else q) * 2 ^ s)"

definition to_double :: "int \<Rightarrow> int" where
  "to_double x = (if x < 0 then - round53 (- x) else round53 x)"

definition js_add :: "int \<Rightarrow> int \<Rightarrow> int" where
  "js_add a b = to_double (a + b)"

text \<open>
  What \<^verbatim>\<open>Math.random()\<close> returns is a double \<open>r\<close> with \<open>0 \<le> r < 1\<close>: the pair \<open>(m, k)\<close>
  stands for \<open>m / 2 ^ k\<close>, and every such double has this form with \<open>m < 2 ^ 53\<close> and
  \<open>k \<le> 1074\<close>. The product of \<open>r\<close> with a positive integer \<open>c\<close> is the exact product
  \<open>c * m / 2 ^ k\<close> rounded to 53 bits; \<open>Math_floor_times c r\<close> and \<open>Math_ceil_times c r\<close>
  are \<^verbatim>\<open>Math.floor(r * c)\<close> and \<^verbatim>\<open>Math.ceil(c * r)\<close>.
\<close>

type_synonym draw = "int \<times> nat"

definition is_draw :: "draw \<Rightarrow> bool" where
  "is_draw r = (case r of (m, k) \<Rightarrow> 0 \<le> m \<and> m < 2 ^ 53 \<and> m < 2 ^ k \<and> k \<le> 1074)"

definition Math_floor_times :: "int \<Rightarrow> draw \<Rightarrow> int" where
  "Math_floor_times c r = (case r of (m, k) \<Rightarrow> round53 (c * m) div 2 ^ k)"

definition Math_ceil_times :: "int \<Rightarrow> draw \<Rightarrow> int" where
  "Math_ceil_times c r = (case r of (m, k) \<Rightarrow> - (- round53 (c * m) div 2 ^ k))"

subsection \<open>\<^verbatim>\<open>Buffer.from(s, "utf8")\<close>\<close>

definition utf8_unit :: "char \<Rightarrow> byte list" where
  "utf8_unit c =
     (let n = (of_char c :: nat)
      in if n < 128 then [of_nat n] else [of_nat (192 + n div 64), of_nat (128 + n mod 64)])"

definition Buffer_from :: "string \<Rightarrow> byte list" where
  "Buffer_from s = concat (map utf8_unit s)"

subsection \<open>\<^verbatim>\<open>JSON.stringify\<close> on an object of numbers and strings\<close>

definition hex_digit :: "nat \<Rightarrow> char" where
  "hex_digit n = ''0123456789abcdef'' ! n"

definition json_escape :: "char \<Rightarrow> string" where
  "json_escape c =
     (if c = CHR 0x22 then [CHR 0x5C, CHR 0x22]
      else if c = CHR 0x5C then [CHR 0x5C, CHR 0x5C]
      else if c = CHR 0x08 then [CHR 0x5C, CHR ''b'']
      else if c = CHR 0x0C then [CHR 0x5C, CHR ''f'']
      else if c = CHR 0x0A then [CHR 0x5C, CHR ''n'']
      else if c = CHR 0x0D then [CHR 0x5C, CHR ''r'']
      else if c = CHR 0x09 then [CHR 0x5C, CHR ''t'']
      else if (of_char c :: nat) < 32
        then [CHR 0x5C, CHR ''u'', CHR ''0'', CHR ''0'',
              hex_digit ((of_char c :: nat) div 16), hex_digit ((of_char c :: nat) mod 16)]
      else [c])"

definition json_quote :: "string \<Rightarrow> string" where
  "json_quote s = [CHR 0x22] @ concat (map json_escape s) @ [CHR 0x22]"

text \<open>
  \<^verbatim>\<open>Number::toString\<close> on an integer-valued double. Below \<open>2 ^ 53\<close> it is the decimal
  numeral. From there on it is made of the shortest digit string \<open>s\<close> of \<open>k\<close> digits with
  \<open>s * 10 ^ (n - k)\<close> rounding to the double (the closest to it if there are two):
  the digits followed by zeros while \<open>n \<le> 21\<close>, and the exponent form after that.
\<close>

function show_digits :: "int \<Rightarrow> string" where
  "show_digits n =
     (if n < 10 then [''0123456789'' ! nat n]
      else show_digits (n div 10) @ [''0123456789'' ! nat (n mod 10)])"
  by pat_completeness auto
termination
  by (relation "measure nat") auto

declare show_digits.simps [simp del]

definition shortest_cand :: "int \<Rightarrow> nat \<Rightarrow> nat \<Rightarrow> int option" where
  "shortest_cand x d k =
     (let p = 10 ^ (d - k); lo = x div p; hi = lo + 1;
          lo_ok = (to_double (lo * p) = x);
          hi_ok = (hi < 10 ^ k \<and> to_double (hi * p) = x)
      in if lo_ok \<and> hi_ok
           then Some (if x - lo * p < hi * p - x then lo
                      else if hi * p - x < x - lo * p then hi
                      else if even lo then lo else hi)
         else if lo_ok then Some lo
         else if hi_ok then Some hi
         else None)"

fun shortest_search :: "int \<Rightarrow> nat \<Rightarrow> nat list \<Rightarrow> (int \<times> nat) option" where
  "shortest_search x d [] = None"
| "shortest_search x d (k # ks) =
     (case shortest_cand x d k of
        Some s \<Rightarrow> Some (s, k)
      | None \<Rightarrow> shortest_search x d ks)"

definition shortest_digits :: "int \<Rightarrow> int \<times> nat \<times> nat" where
  "shortest_digits x =
     (let d = length (show_digits x)
      in if to_double (10 ^ d) = x then (1, 1, d + 1)
         else case shortest_search x d [1..<Suc d] of
                Some (s, k) \<Rightarrow> (s, k, d)
              | None \<Rightarrow> (x, d, d))"

definition show_double :: "int \<Rightarrow> string" where
  "show_double x =
     (if x < 2 ^ 53 then show_digits x
      else case shortest_digits x of (s, k, n) \<Rightarrow>
        let ds = show_digits s
        in if n \<le> 21 then ds @ replicate (n - k) CHR ''0''
           else if k = 1 then ds @ ''e+'' @ show_digits (int n - 1)
           else hd ds # ''.'' @ tl ds @ ''e+'' @ show_digits (int n - 1))"

definition Number_toString :: "int \<Rightarrow> string" where
  "Number_toString i = (if i < 0 then CHR ''-'' # show_double (- i) else show_double i)"

text \<open>A property whose value is undefined is left out; NaN and Infinity are written as
  null.\<close>

fun json_value :: "jsval \<Rightarrow> string option" where
  "json_value JUndefined = None"
| "json_value JNull = Some ''null''"
| "json_value (JBool b) = Some (if b then ''true'' else ''false'')"
| "json_value (JNum n) = Some (Number_toString n)"
| "json_value (JInf neg) = Some ''null''"
| "json_value JNaN = Some ''null''"
| "json_value (JStr s) = Some (json_quote s)"

fun json_members :: "(string \<times> jsval) list \<Rightarrow> string list" where
  "json_members [] = []"
| "json_members ((k, v) # kvs) =
     (case json_value v of
        None \<Rightarrow> json_members kvs
      | Some t \<Rightarrow> (json_quote k @ '':'' @ t) # json_members kvs)"

fun join :: "string \<Rightarrow> string list \<Rightarrow> string" where
  "join sep [] = []"
| "join sep [x] = x"
| "join sep (x # y # ys) = x @ sep @ join sep (y # ys)"

text \<open>The object is the list of its properties in insertion order, which is the order
  in which \<^verbatim>\<open>JSON.stringify\<close> writes them.\<close>

definition JSON_stringify :: "(string \<times> jsval) list \<Rightarrow> string" where
  "JSON_stringify obj = ''{'' @ join '','' (json_members obj) @ ''}''"

subsection \<open>\<^verbatim>\<open>buf.toString("base64")\<close>\<close>

definition b64chars :: string where
  "b64chars = ''ABCDEFGHIJKLMNOPQRSTUVWXYZabcdefghijklmnopqrstuvwxyz0123456789+/''"

definition b64 :: "nat \<Rightarrow> char" where
  "b64 n = b64chars ! n"

fun b64_encode :: "nat list \<Rightarrow> string" where
  "b64_encode [] = []"
| "b64_encode [a] = [b64 (a div 4), b64 (a mod 4 * 16), CHR ''='', CHR ''='']"
| "b64_encode [a, b] =
     [b64 (a div 4), b64 (a mod 4 * 16 + b div 16), b64 (b mod 16 * 4), CHR ''='']"
| "b64_encode (a # b # c # bs) =
     [b64 (a div 4), b64 (a mod 4 * 16 + b div 16), b64 (b mod 16 * 4 + c div 64), b64 (c mod 64)]
     @ b64_encode bs"

definition toString_base64 :: "byte list \<Rightarrow> string" where
  "toString_base64 buf = b64_encode (map unat buf)"

text \<open>The decoder of the far side (RFC 4648, padded input). The issuer never decodes; the
  decoder is here to state what the token decodes to.\<close>

fun b64_index :: "string \<Rightarrow> char \<Rightarrow> nat" where
  "b64_index [] c = 0"
| "b64_index (x # xs) c = (if x = c then 0 else Suc (b64_index xs c))"

definition b64_val :: "char \<Rightarrow> nat" where
  "b64_val c = b64_index b64chars c"

fun b64_decode :: "string \<Rightarrow> nat list" where
  "b64_decode (w # x # y # z # cs) =
     (if y = CHR ''='' then [b64_val w * 4 + b64_val x div 16]
      else if z = CHR ''=''
        then [b64_val w * 4 + b64_val x div 16, b64_val x mod 16 * 16 + b64_val y div 4]
      else [b64_val w * 4 + b64_val x div 16, b64_val x mod 16 * 16 + b64_val y div 4,
            b64_val y mod 4 * 64 + b64_val z] @ b64_decode cs)"
| "b64_decode cs = []"

definition base64_decode :: "string \<Rightarrow> byte list" where
  "base64_decode s = map of_nat (b64_decode s)"

subsection \<open>Big-endian writes into a buffer\<close>

text \<open>\<open>be_bytes n v\<close> is the two's complement of \<open>v\<close> on \<open>n\<close> bytes, most significant first.\<close>

fun be_bytes :: "nat \<Rightarrow> int \<Rightarrow> byte list" where
  "be_bytes 0 v = []"
| "be_bytes (Suc n) v = be_bytes n (v div 256) @ [word_of_int v]"

definition be_uint :: "byte list \<Rightarrow> int" where
  "be_uint bs = foldl (\<lambda>acc b. acc * 256 + uint b) 0 bs"

definition readBigInt64BE :: "byte list \<Rightarrow> int" where
  "readBigInt64BE bs =
     (let u = be_uint (take 8 bs) in if u < 2 ^ 63 then u else u - 2 ^ 64)"

definition Buffer_alloc :: "nat \<Rightarrow> byte list" where
  "Buffer_alloc n = replicate n 0"

definition put_bytes :: "byte list \<Rightarrow> nat \<Rightarrow> byte list \<Rightarrow> byte list" where
  "put_bytes buf off bs = take off buf @ bs @ drop (off + length bs) buf"

text \<open>\<^verbatim>\<open>buf.writeBigInt64BE(v, off)\<close> and \<^verbatim>\<open>buf.writeUInt16BE(v, off)\<close> throw when the value
  does not fit the field, and then when the field does not fit the buffer.\<close>

definition writeBigInt64BE :: "byte list \<Rightarrow> int \<Rightarrow> nat \<Rightarrow> js_error + byte list" where
  "writeBigInt64BE buf v off =
     (if v < - (2 ^ 63) \<or> 2 ^ 63 \<le> v then Inl (ERR_OUT_OF_RANGE v)
      else if length buf < off + 8 then Inl ERR_BUFFER_OUT_OF_BOUNDS
      else Inr (put_bytes buf off (be_bytes 8 v)))"

definition writeUInt16BE :: "byte list \<Rightarrow> int \<Rightarrow> nat \<Rightarrow> js_error + byte list" where
  "writeUInt16BE buf v off =
     (if v < 0 \<or> 65535 < v then Inl (ERR_OUT_OF_RANGE v)
      else if length buf < off + 2 then Inl ERR_BUFFER_OUT_OF_BOUNDS
      else Inr (put_bytes buf off (be_bytes 2 v)))"

text \<open>\<^verbatim>\<open>src.copy(target, off)\<close> copies what fits and never throws.\<close>

definition copy :: "byte list \<Rightarrow> byte list \<Rightarrow> nat \<Rightarrow> byte list" where
  "copy src target off =
     (if length target \<le> off then target
      else put_bytes target off (take (length target - off) src))"

section \<open>Token04 generation\<close>

text \<open>
  The two effects of \<^verbatim>\<open>generateToken04\<close> are inputs of the model: \<open>now\<close> is what
  \<^verbatim>\<open>Date.now()\<close> returns (milliseconds, a natural number below \<open>2 ^ 53\<close>, for which
  \<^verbatim>\<open>Math.floor(now / 1000)\<close> is \<open>now div 1000\<close>), and \<open>rnd i\<close> is what the \<open>i\<close>-th call of
  \<^verbatim>\<open>Math.random()\<close> returns, a double \<open>r\<close> with \<open>0 \<le> r < 1\<close>. The first draw makes the
  nonce, the next sixteen make the IV. The lifetime is an integer-valued double.

  The AES-256-CBC primitive of Node's \<^verbatim>\<open>crypto\<close> module is not code of the repository: it
  is the parameter \<open>cbc\<close>, from key, IV and plaintext bytes to ciphertext bytes.
  \<^verbatim>\<open>createCipheriv\<close> throws unless the IV has 16 bytes and the key has 32.
\<close>

type_synonym cipher = "byte list \<Rightarrow> byte list \<Rightarrow> byte list \<Rightarrow> byte list"

definition chars :: string where
  "chars = ''0123456789abcdefghijklmnopqrstuvwxyz''"

text \<open>\<^verbatim>\<open>s[i]\<close> is undefined out of range, and \<^verbatim>\<open>join\<close> writes undefined as the empty string.\<close>

definition char_at :: "string \<Rightarrow> int \<Rightarrow> string" where
  "char_at s i = (if 0 \<le> i \<and> i < int (length s) then [s ! nat i] else [])"

definition makeRandomIv :: "(nat \<Rightarrow> draw) \<Rightarrow> string" where
  "makeRandomIv rnd =
     concat (map (\<lambda>i. char_at chars (Math_floor_times (int (length chars)) (rnd i))) [0..<16])"

definition createCipheriv :: "cipher \<Rightarrow> byte list \<Rightarrow> byte list \<Rightarrow> js_error + (byte list \<Rightarrow> byte list)" where
  "createCipheriv cbc key iv =
     (if length iv \<noteq> 16 then Inl ERR_CRYPTO_INVALID_IV
      else if length key \<noteq> 32 then Inl ERR_CRYPTO_INVALID_KEYLEN
      else Inr (cbc key iv))"

definition aesEncrypt :: "cipher \<Rightarrow> string \<Rightarrow> jsval \<Rightarrow> string \<Rightarrow> js_error + byte list" where
  "aesEncrypt cbc plainText key iv =
     (case key of
        JStr k \<Rightarrow>
          bindE (createCipheriv cbc (Buffer_from k) (Buffer_from iv))
            (\<lambda>cipher. Inr (cipher (Buffer_from plainText)))
      | _ \<Rightarrow> Inl ERR_INVALID_ARG_TYPE)"

definition makeNonce :: "draw \<Rightarrow> int" where
  "makeNonce r = Math_ceil_times (- 2147483648 + 4294967295) r"

definition tokenInfo :: "jsval \<Rightarrow> jsval \<Rightarrow> int \<Rightarrow> int \<Rightarrow> int \<Rightarrow> string \<Rightarrow> (string \<times> jsval) list" where
  "tokenInfo appId userId nonce createTime expireTime payload =
     [(''app_id'', appId),
      (''user_id'', userId),
      (''nonce'', JNum nonce),
      (''ctime'', JNum createTime),
      (''expire'', JNum expireTime),
      (''payload'', JStr (if payload \<noteq> [] then payload else []))]"

text \<open>Lines 55 to 64 of the source: the buffer is allocated and filled field by field.\<close>

definition pack_binary :: "int \<Rightarrow> string \<Rightarrow> byte list \<Rightarrow> js_error + byte list" where
  "pack_binary expireTime iv encryptedBuf =
     (let ivBuf = Buffer_from iv;
          totalLen = 8 + 2 + length ivBuf + 2 + length encryptedBuf;
          buf0 = Buffer_alloc totalLen;
          offset0 = 0
      in bindE (writeBigInt64BE buf0 expireTime offset0) (\<lambda>buf1.
         let offset1 = offset0 + 8
         in bindE (writeUInt16BE buf1 (int (length ivBuf)) offset1) (\<lambda>buf2.
            let offset2 = offset1 + 2;
                buf3 = copy ivBuf buf2 offset2;
                offset3 = offset2 + length ivBuf
            in bindE (writeUInt16BE buf3 (int (length encryptedBuf)) offset3) (\<lambda>buf4.
               let offset4 = offset3 + 2
               in Inr (copy encryptedBuf buf4 offset4)))))"

definition generateToken04 ::
  "cipher \<Rightarrow> int \<Rightarrow> (nat \<Rightarrow> draw) \<Rightarrow> jsval \<Rightarrow> jsval \<Rightarrow> jsval \<Rightarrow> int \<Rightarrow> string \<Rightarrow> js_error + string" where
  "generateToken04 cbc now rnd appId userId serverSecret effectiveTimeInSeconds payload =
     (if \<not> truthy appId \<or> typeof appId \<noteq> ''number''
        then Inl (Error ''appId must be a number'')
      else if \<not> truthy userId \<or> typeof userId \<noteq> ''string''
        then Inl (Error ''userId must be a string'')
      else if \<not> truthy serverSecret \<or> js_length serverSecret \<noteq> Some 32
        then Inl (Error ''serverSecret must be 32 chars'')
      else
        let createTime = now div 1000;
            expireTime = js_add createTime effectiveTimeInSeconds;
            nonce = makeNonce (rnd 0);
            plainText = JSON_stringify (tokenInfo appId userId nonce createTime expireTime payload);
            iv = makeRandomIv (\<lambda>i. rnd (Suc i))
        in bindE (aesEncrypt cbc plainText serverSecret iv) (\<lambda>encryptedBuf.
           bindE (pack_binary expireTime iv encryptedBuf) (\<lambda>buf.
           Inr (''04'' @ toString_base64 buf))))"

text \<open>The envelope as section 4.1 of the specification lays it out.\<close>

definition envelope :: "int \<Rightarrow> byte list \<Rightarrow> byte list \<Rightarrow> byte list" where
  "envelope expiresAt iv cipher =
     be_bytes 8 expiresAt @ be_bytes 2 (int (length iv)) @ iv
     @ be_bytes 2 (int (length cipher)) @ cipher"

text \<open>A stand-in for the cipher, to evaluate the model on concrete inputs: PKCS#7 padding
  to blocks of 16 bytes, then every byte combined with a key byte and an IV byte by
  exclusive or. It has the interface of the primitive and none of the secrecy of AES.\<close>

definition pkcs7 :: "byte list \<Rightarrow> byte list" where
  "pkcs7 bs = (let k = 16 - length bs mod 16 in bs @ replicate k (of_nat k))"

definition toy_cipher :: cipher where
  "toy_cipher key iv plain =
     map (\<lambda>(i, b). xor b (xor (key ! (i mod 32)) (iv ! (i mod 16)))) (enumerate 0 (pkcs7 plain))"

section \<open>The room store and the four routes\<close>

text \<open>
  \<^verbatim>\<open>req.user\<close> is what the authentication middleware loaded: \<open>user_id\<close> and
  \<open>user_organization\<close> are the results of \<^verbatim>\<open>toString()\<close> on \<^verbatim>\<open>user._id\<close> and on
  \<^verbatim>\<open>user.organization\<close>; a user without organization makes that call throw. The fields
  of \<^verbatim>\<open>req.body\<close> are JSON values, \<open>JUndefined\<close> when absent. In a response,
  \<open>ErrorBody m\<close> is \<^verbatim>\<open>{ error: m }\<close> for a literal \<open>m\<close> of the source, and \<open>CaughtBody e\<close> is
  \<^verbatim>\<open>{ error: err.message }\<close> for the caught exception \<open>e\<close>.
\<close>

record user =
  user_id :: string
  user_name :: string
  user_plan :: jsval
  user_organization :: "string option"

record room =
  room_id :: string
  title :: jsval
  type :: jsval
  hostId :: string
  hostName :: string
  organization :: string
  participants :: nat
  createdAt :: int
  live :: bool

record env =
  ZEGO_APP_ID :: "string option"
  ZEGO_SERVER_SECRET :: "string option"

record token_response =
  token :: string
  userId :: string
  userName :: string
  roomId :: jsval
  appId :: jsval
  isHost :: "bool option"
  demo :: "bool option"

datatype body =
    ErrorBody string
  | PremiumBody string string
  | TokenBody token_response
  | CaughtBody js_error
  | RoomBody room
  | RoomsBody "room list"
  | MessageBody string

type_synonym response = "nat \<times> body"

text \<open>\<^verbatim>\<open>activeRooms\<close> is a \<^verbatim>\<open>Map\<close>: its entries in insertion order. \<^verbatim>\<open>set\<close> on a key that
  is present replaces the value in place, which is \<open>AList.update\<close>; \<^verbatim>\<open>delete\<close> is
  \<open>AList.delete\<close>; \<^verbatim>\<open>get\<close> is \<open>map_of\<close>, and finds nothing for a key that is not a string.\<close>

type_synonym rooms = "(string \<times> room) list"

definition Map_get :: "rooms \<Rightarrow> jsval \<Rightarrow> room option" where
  "Map_get m k = (case k of JStr s \<Rightarrow> map_of m s | _ \<Rightarrow> None)"

subsection \<open>\<^verbatim>\<open>parseInt(s, 10)\<close>\<close>

definition is_space :: "char \<Rightarrow> bool" where
  "is_space c = (c \<in> set [CHR 0x09, CHR 0x0A, CHR 0x0B, CHR 0x0C, CHR 0x0D, CHR 0x20, CHR 0xA0])"

definition is_digit :: "char \<Rightarrow> bool" where
  "is_digit c = (c \<in> set ''0123456789'')"

definition digit_val :: "char \<Rightarrow> int" where
  "digit_val c = int (of_char c) - 48"

definition parseInt :: "string option \<Rightarrow> jsval" where
  "parseInt x =
     (let s = (case x of None \<Rightarrow> ''undefined'' | Some t \<Rightarrow> t);
          s1 = dropWhile is_space s;
          neg = (case s1 of [] \<Rightarrow> False | c # cs \<Rightarrow> c = CHR ''-'');
          s2 = (case s1 of [] \<Rightarrow> [] | c # cs \<Rightarrow> if c = CHR ''+'' \<or> c = CHR ''-'' then cs else s1);
          ds = takeWhile is_digit s2
      in if ds = [] then JNaN
         else
           let v = to_double ((if neg then - 1 else 1) * foldl (\<lambda>a c. 10 * a + digit_val c) 0 ds)
           in if 2 ^ 1024 \<le> \<bar>v\<bar> then JInf neg else JNum v)"

definition env_value :: "string option \<Rightarrow> jsval" where
  "env_value x = (case x of None \<Rightarrow> JUndefined | Some s \<Rightarrow> JStr s)"

subsection \<open>POST /token\<close>

definition post_token ::
  "cipher \<Rightarrow> env \<Rightarrow> int \<Rightarrow> (nat \<Rightarrow> draw) \<Rightarrow> rooms \<Rightarrow> user \<Rightarrow> jsval \<Rightarrow> response" where
  "post_token cbc env now rnd activeRooms user roomId' =
     (if user_plan user = JStr ''free'' \<or> \<not> truthy (user_plan user)
        then (403, PremiumBody ''premium_required'' ''Live Rooms require a Pro subscription.'')
      else if \<not> truthy roomId' then (400, ErrorBody ''roomId is required'')
      else
        let appId' = parseInt (ZEGO_APP_ID env);
            serverSecret = env_value (ZEGO_SERVER_SECRET env)
        in if \<not> truthy appId' \<or> \<not> truthy serverSecret
             then (200, TokenBody \<lparr>token = ''ZEGO_NOT_CONFIGURED'', userId = user_id user,
                      userName = user_name user, roomId = roomId', appId = JNum 0,
                      isHost = None, demo = Some True\<rparr>)
           else
             let userId' = user_id user
             in case generateToken04 cbc now rnd appId' (JStr userId') serverSecret 3600 [] of
                  Inl err \<Rightarrow> (500, CaughtBody err)
                | Inr token' \<Rightarrow>
                    let room = Map_get activeRooms roomId';
                        isHost' = (case room of Some r \<Rightarrow> hostId r = userId' | None \<Rightarrow> False)
                    in (200, TokenBody \<lparr>token = token', userId = userId',
                          userName = user_name user, roomId = roomId', appId = appId',
                          isHost = Some isHost', demo = None\<rparr>))"

subsection \<open>POST /create-room\<close>

text \<open>\<open>now\<close> is \<^verbatim>\<open>Date.now()\<close>, \<open>suffix\<close> is \<^verbatim>\<open>Math.random().toString(36).slice(2, 7)\<close> and
  \<open>date\<close> is \<^verbatim>\<open>new Date()\<close>. The timer set at creation runs \<open>evict\<close> four hours later.\<close>

definition post_create_room ::
  "int \<Rightarrow> string \<Rightarrow> int \<Rightarrow> rooms \<Rightarrow> user \<Rightarrow> jsval \<Rightarrow> jsval \<Rightarrow> rooms \<times> response" where
  "post_create_room now suffix date activeRooms user title' type' =
     (if user_plan user = JStr ''free'' \<or> \<not> truthy (user_plan user)
        then (activeRooms, (403, ErrorBody ''premium_required''))
      else
        let type'' = (if type' = JUndefined then JStr ''audio'' else type')
        in if \<not> truthy title' then (activeRooms, (400, ErrorBody ''title required''))
           else
             let roomId' = ''room_'' @ Number_toString now @ ''_'' @ suffix
             in case user_organization user of
                  None \<Rightarrow> (activeRooms, (500, CaughtBody TypeError_property_of_undefined))
                | Some org \<Rightarrow>
                    let room = \<lparr>room_id = roomId', title = title', type = type'',
                                hostId = user_id user, hostName = user_name user,
                                organization = org, participants = 0, createdAt = date,
                                live = True\<rparr>
                    in (AList.update roomId' room activeRooms, (200, RoomBody room)))"

definition evict :: "string \<Rightarrow> rooms \<Rightarrow> rooms" where
  "evict roomId' activeRooms = AList.delete roomId' activeRooms"

subsection \<open>GET /list\<close>

definition get_list :: "rooms \<Rightarrow> user \<Rightarrow> response" where
  "get_list activeRooms user =
     (case user_organization user of
        None \<Rightarrow> (500, CaughtBody TypeError_property_of_undefined)
      | Some orgId \<Rightarrow>
          (200, RoomsBody (filter (\<lambda>r. organization r = orgId \<and> live r) (map snd activeRooms))))"

subsection \<open>DELETE /close/:roomId\<close>

definition delete_close :: "rooms \<Rightarrow> user \<Rightarrow> string \<Rightarrow> rooms \<times> response" where
  "delete_close activeRooms user roomId' =
     (case map_of activeRooms roomId' of
        None \<Rightarrow> (activeRooms, (404, ErrorBody ''Room not found''))
      | Some room \<Rightarrow>
          if hostId room \<noteq> user_id user
            then (activeRooms, (403, ErrorBody ''Only the host can close the room''))
          else (AList.delete roomId' activeRooms, (200, MessageBody ''Room closed'')))"

section \<open>Names for the local values of \<^verbatim>\<open>generateToken04\<close>\<close>

text \<open>The plaintext, the IV and the ciphertext that a call computes, as functions of its
  inputs: the right-hand sides of \<^verbatim>\<open>plainText\<close>, \<^verbatim>\<open>iv\<close> and \<^verbatim>\<open>encryptedBuf\<close> in the source.\<close>

definition local_expireTime :: "int \<Rightarrow> int \<Rightarrow> int" where
  "local_expireTime now effectiveTimeInSeconds = js_add (now div 1000) effectiveTimeInSeconds"

definition local_plainText :: "int \<Rightarrow> (nat \<Rightarrow> draw) \<Rightarrow> jsval \<Rightarrow> jsval \<Rightarrow> int \<Rightarrow> string \<Rightarrow> string" where
  "local_plainText now rnd appId' userId' effectiveTimeInSeconds payload =
     JSON_stringify (tokenInfo appId' userId' (makeNonce (rnd 0)) (now div 1000)
       (js_add (now div 1000) effectiveTimeInSeconds) payload)"

definition local_iv :: "(nat \<Rightarrow> draw) \<Rightarrow> string" where
  "local_iv rnd = makeRandomIv (\<lambda>i. rnd (Suc i))"

definition local_encryptedBuf ::
  "cipher \<Rightarrow> int \<Rightarrow> (nat \<Rightarrow> draw) \<Rightarrow> jsval \<Rightarrow> jsval \<Rightarrow> string \<Rightarrow> int \<Rightarrow> string \<Rightarrow> byte list" where
  "local_encryptedBuf cbc now rnd appId' userId' secret effectiveTimeInSeconds payload =
     cbc (Buffer_from secret) (Buffer_from (local_iv rnd))
       (Buffer_from (local_plainText now rnd appId' userId' effectiveTimeInSeconds payload))"

text \<open>A call makes seventeen draws. A source of draws is admissible when each of them is a
  double in the range of \<^verbatim>\<open>Math.random()\<close>.\<close>

definition draws_ok :: "(nat \<Rightarrow> draw) \<Rightarrow> bool" where
  "draws_ok rnd = list_all (\<lambda>i. is_draw (rnd i)) [0..<17]"

text \<open>A source whose every draw is one half, \<open>2 ^ 52 / 2 ^ 53\<close>, for concrete evaluations.\<close>

definition fixed_draws :: "nat \<Rightarrow> draw" where
  "fixed_draws i = (4503599627370496, 53)"

text \<open>The token of one concrete call: application 7, user u1, a secret of 32 characters,
  one hour of lifetime, at 1700000000123 milliseconds, with the stand-in cipher.\<close>

definition example_token :: string where
  "example_token =
     ''04'' @ toString_base64 (envelope 1700003600 (Buffer_from ''iiiiiiiiiiiiiiii'')
       (local_encryptedBuf toy_cipher 1700000000123 fixed_draws (JNum 7) (JStr ''u1'')
          ''0123456789abcdef0123456789abcdef'' 3600 []))"

text \<open>Three callers, a room and a configuration.\<close>

definition host_user :: user where
  "host_user = \<lparr>user_id = ''u1'', user_name = ''Ann'', user_plan = JStr ''pro'',
     user_organization = Some ''org1''\<rparr>"

definition guest_user :: user where
  "guest_user = \<lparr>user_id = ''u2'', user_name = ''Bob'', user_plan = JStr ''pro'',
     user_organization = Some ''org1''\<rparr>"

definition free_user :: user where
  "free_user = \<lparr>user_id = ''u3'', user_name = ''Cy'', user_plan = JStr ''free'',
     user_organization = Some ''org2''\<rparr>"

definition example_room :: room where
  "example_room = \<lparr>room_id = ''room_1700000000123_k3x9q'', title = JStr ''Sprint Retro'',
     type = JStr ''audio'', hostId = ''u1'', hostName = ''Ann'', organization = ''org1'',
     participants = 0, createdAt = 1700000000123, live = True\<rparr>"

definition example_env :: env where
  "example_env = \<lparr>ZEGO_APP_ID = Some ''7'',
     ZEGO_SERVER_SECRET = Some ''0123456789abcdef0123456789abcdef''\<rparr>"

definition short_secret_env :: env where
  "short_secret_env = \<lparr>ZEGO_APP_ID = Some ''7'', ZEGO_SERVER_SECRET = Some ''0123456789abcdef''\<rparr>"

text \<open>The draws that are all 0.3333333333333333, the double nearest to one third.\<close>

definition third_draws :: "nat \<Rightarrow> draw" where
  "third_draws i = (6004799503160661, 54)"

section \<open>Doubles and decimal digits\<close>

lemma shift53_le: "n < 2 ^ 53 * 2 ^ j \<Longrightarrow> shift53 n \<le> j"
proof (induction j arbitrary: n)
  case 0
  then show ?case by (simp add: shift53.simps)
next
  case (Suc j)
  show ?case
  proof (cases "n < 2 ^ 53")
    case True
    then show ?thesis by (simp add: shift53.simps)
  next
    case False
    have half: "a div 2 < b" if "a < 2 * b" for a b :: int
      using that by presburger
    from Suc.prems have "n < 2 * (2 ^ 53 * 2 ^ j)" by simp
    then have "n div 2 < 2 ^ 53 * 2 ^ j" by (rule half)
    from Suc.IH [OF this] False show ?thesis
      by (subst shift53.simps) simp
  qed
qed

lemma round53_small: "n < 2 ^ 53 \<Longrightarrow> round53 n = n"
  by (simp add: round53_def shift53.simps)

lemma to_double_safe: "\<bar>x\<bar> < 2 ^ 53 \<Longrightarrow> to_double x = x"
  by (simp add: to_double_def round53_small)

lemma round53_bounds:
  assumes "0 \<le> n"
  shows "0 \<le> round53 n" and "2 * round53 n \<le> 2 * n + 2 ^ shift53 n"
proof -
  define s where "s = shift53 n"
  define q where "q = n div 2 ^ s"
  define r where "r = n mod 2 ^ s"
  have n: "n = q * 2 ^ s + r" unfolding q_def r_def by (rule div_mult_mod_eq [symmetric])
  have r: "0 \<le> r" "r < 2 ^ s" by (simp_all add: r_def)
  from assms have q: "0 \<le> q" by (simp add: q_def pos_imp_zdiv_nonneg_iff)
  have rd: "round53 n = (if 2 ^ s < 2 * r \<or> (2 * r = 2 ^ s \<and> odd q) then q + 1 else q) * 2 ^ s"
    by (simp add: round53_def Let_def s_def q_def r_def)
  from q show "0 \<le> round53 n" by (simp add: rd)
  have "2 * round53 n \<le> 2 * n + 2 ^ s"
  proof (cases "2 ^ s < 2 * r \<or> (2 * r = 2 ^ s \<and> odd q)")
    case True
    then have "2 ^ s \<le> 2 * r" by auto
    moreover from True have "round53 n = q * 2 ^ s + 2 ^ s" by (simp add: rd algebra_simps)
    ultimately show ?thesis using n by linarith
  next
    case False
    then have "round53 n = q * 2 ^ s" by (simp add: rd)
    with n r show ?thesis by linarith
  qed
  then show "2 * round53 n \<le> 2 * n + 2 ^ shift53 n" by (simp add: s_def)
qed

lemma js_add_nonneg: "0 \<le> a + b \<Longrightarrow> 0 \<le> js_add a b"
  by (simp add: js_add_def to_double_def round53_bounds(1))

lemma js_add_safe: "\<bar>a + b\<bar> < 2 ^ 53 \<Longrightarrow> js_add a b = a + b"
  by (simp add: js_add_def to_double_safe)

lemma round53_times_less:
  assumes "0 \<le> m" and "m < 2 ^ k" and "m < 2 ^ 53" and "0 < c" and "c < 2 ^ j"
    and "2 ^ j < 2 * c"
  shows "0 \<le> round53 (c * m)" and "round53 (c * m) < c * 2 ^ k"
proof -
  from assms have nn: "0 \<le> c * m" by simp
  from round53_bounds(1) [OF nn] show "0 \<le> round53 (c * m)" .
  have "c * m < 2 ^ j * 2 ^ 53"
    using assms by (intro mult_strict_mono') simp_all
  then have "c * m < 2 ^ 53 * 2 ^ j" by (simp add: mult.commute)
  then have "shift53 (c * m) \<le> j" by (rule shift53_le)
  then have "(2::int) ^ shift53 (c * m) \<le> 2 ^ j" by (intro power_increasing) simp_all
  with round53_bounds(2) [OF nn] have b: "2 * round53 (c * m) \<le> 2 * (c * m) + 2 ^ j" by linarith
  from assms(2) have "m + 1 \<le> 2 ^ k" by simp
  with assms(4) have "c * (m + 1) \<le> c * 2 ^ k" by (intro mult_left_mono) simp_all
  then have "c * m + c \<le> c * 2 ^ k" by (simp add: algebra_simps)
  with b assms(6) show "round53 (c * m) < c * 2 ^ k" by linarith
qed

lemma int_div_less:
  fixes x c P :: int
  assumes "x < c * P" and "0 < P"
  shows "x div P < c"
proof -
  have "x div P * P \<le> x"
    using div_mult_mod_eq [of x P] pos_mod_sign [OF assms(2), of x] by linarith
  with assms(1) have "x div P * P < c * P" by linarith
  with assms(2) show ?thesis by simp
qed

lemma Math_floor_times_36:
  assumes "is_draw r"
  shows "0 \<le> Math_floor_times 36 r" and "Math_floor_times 36 r < 36"
proof -
  obtain m k where r: "r = (m, k)" by (cases r)
  from assms r have d: "0 \<le> m" "m < 2 ^ k" "m < 2 ^ 53" by (simp_all add: is_draw_def)
  have b1: "0 \<le> round53 (36 * m)"
    by (rule round53_times_less(1) [OF d, where c = 36 and j = 6]) simp_all
  have b2: "round53 (36 * m) < 36 * 2 ^ k"
    by (rule round53_times_less(2) [OF d, where c = 36 and j = 6]) simp_all
  from b1 show "0 \<le> Math_floor_times 36 r"
    by (simp add: Math_floor_times_def r pos_imp_zdiv_nonneg_iff)
  from b2 have "round53 (36 * m) div 2 ^ k < 36"
    by (rule int_div_less) simp
  then show "Math_floor_times 36 r < 36"
    by (simp add: Math_floor_times_def r)
qed

lemma Math_ceil_times_nonce:
  assumes "is_draw r"
  shows "0 \<le> Math_ceil_times 2147483647 r" and "Math_ceil_times 2147483647 r \<le> 2147483647"
proof -
  obtain m k where r: "r = (m, k)" by (cases r)
  from assms r have d: "0 \<le> m" "m < 2 ^ k" "m < 2 ^ 53" by (simp_all add: is_draw_def)
  define x where "x = round53 (2147483647 * m)"
  define P :: int where "P = 2 ^ k"
  have P: "0 < P" by (simp add: P_def)
  have b1: "0 \<le> x" unfolding x_def
    by (rule round53_times_less(1) [OF d, where c = 2147483647 and j = 31]) simp_all
  have b2: "x < 2147483647 * P" unfolding x_def P_def
    by (rule round53_times_less(2) [OF d, where c = 2147483647 and j = 31]) simp_all
  from b1 P have "(- x) div P \<le> 0" by (simp add: div_nonpos_pos_le0)
  then show "0 \<le> Math_ceil_times 2147483647 r"
    by (simp add: Math_ceil_times_def r x_def P_def)
  from b2 have "(- 2147483647) * P \<le> - x" by simp
  from zdiv_mono1 [OF this P] have "((- 2147483647) * P) div P \<le> (- x) div P" .
  moreover from P have "((- 2147483647) * P) div P = - 2147483647"
    by (intro nonzero_mult_div_cancel_right) simp
  ultimately have "- ((- x) div P) \<le> 2147483647" by linarith
  then show "Math_ceil_times 2147483647 r \<le> 2147483647"
    by (simp add: Math_ceil_times_def r x_def P_def)
qed

lemma digit_back:
  assumes "0 \<le> d" and "d < 10"
  shows "digit_val (''0123456789'' ! nat d) = d" and "is_digit (''0123456789'' ! nat d)"
proof -
  from assms have "d = 0 \<or> d = 1 \<or> d = 2 \<or> d = 3 \<or> d = 4 \<or> d = 5 \<or> d = 6 \<or> d = 7 \<or> d = 8 \<or> d = 9"
    by arith
  then show "digit_val (''0123456789'' ! nat d) = d" and "is_digit (''0123456789'' ! nat d)"
    by (auto simp add: digit_val_def is_digit_def)
qed

lemma show_digits_back:
  "0 \<le> n \<Longrightarrow> foldl (\<lambda>a c. 10 * a + digit_val c) 0 (show_digits n) = n
     \<and> list_all is_digit (show_digits n) \<and> show_digits n \<noteq> []"
proof (induction n rule: show_digits.induct)
  case (1 n)
  show ?case
  proof (cases "n < 10")
    case True
    with "1.prems" show ?thesis
      by (subst (1 2 3) show_digits.simps) (simp add: digit_back)
  next
    case False
    with "1.prems" have "0 \<le> n div 10" by simp
    from "1.IH" [OF False this] have ih:
      "foldl (\<lambda>a c. 10 * a + digit_val c) 0 (show_digits (n div 10)) = n div 10"
      "list_all is_digit (show_digits (n div 10))" by simp_all
    have m: "0 \<le> n mod 10" "n mod 10 < 10" by simp_all
    from False ih digit_back [OF m] show ?thesis
      by (subst (1 2 3) show_digits.simps) simp
  qed
qed

section \<open>Bytes, base64 and the packed buffer\<close>

lemma length_be_bytes: "length (be_bytes n v) = n"
  by (induction n arbitrary: v) auto

lemma be_uint_snoc: "be_uint (bs @ [b]) = be_uint bs * 256 + uint b"
  by (simp add: be_uint_def)

lemma be_uint_be_bytes: "be_uint (be_bytes n v) = v mod 256 ^ n"
proof (induction n arbitrary: v)
  case 0
  show ?case by (simp add: be_uint_def)
next
  case (Suc n)
  have "uint (word_of_int v :: byte) = v mod 256"
    by (simp add: uint_word_of_int take_bit_eq_mod)
  then have "be_uint (be_bytes (Suc n) v) = (v div 256) mod 256 ^ n * 256 + v mod 256"
    by (simp add: be_uint_snoc Suc.IH)
  also have "\<dots> = v mod (256 * 256 ^ n)"
    using zmod_zmult2_eq [of "256 ^ n" v 256] by simp
  finally show ?case by simp
qed

lemma readBigInt64BE_be_bytes:
  assumes "- (2 ^ 63) \<le> v" and "v < 2 ^ 63"
  shows "readBigInt64BE (be_bytes 8 v @ rest) = v"
proof -
  have u: "be_uint (take 8 (be_bytes 8 v @ rest)) = v mod 2 ^ 64"
    by (simp add: length_be_bytes be_uint_be_bytes)
  show ?thesis
  proof (cases "0 \<le> v")
    case True
    with assms have "v mod 2 ^ 64 = v" by simp
    with u assms show ?thesis by (simp add: readBigInt64BE_def)
  next
    case False
    with assms have "(v + 2 ^ 64) mod 2 ^ 64 = v + 2 ^ 64"
      by (intro mod_pos_pos_trivial) simp_all
    then have "v mod 2 ^ 64 = v + 2 ^ 64" by simp
    with u assms False show ?thesis by (simp add: readBigInt64BE_def Let_def)
  qed
qed

lemma b64_table: "list_all (\<lambda>n. b64_val (b64 n) = n \<and> b64 n \<noteq> CHR ''='') [0..<64]"
  by code_simp

lemma b64_val_b64: "n < 64 \<Longrightarrow> b64_val (b64 n) = n"
  using b64_table by (simp add: list_all_iff)

lemma b64_ne_pad: "n < 64 \<Longrightarrow> b64 n \<noteq> CHR ''=''"
  using b64_table by (simp add: list_all_iff)

lemma b64_roundtrip: "\<forall>b\<in>set bs. b < 256 \<Longrightarrow> b64_decode (b64_encode bs) = bs"
proof (induction bs rule: b64_encode.induct)
  case 1
  show ?case by simp
next
  case (2 a)
  then have a: "a < 256" by simp
  then show ?case by (simp add: b64_val_b64 b64_ne_pad)
next
  case (3 a b)
  then have "a < 256" "b < 256" by simp_all
  then show ?case by (simp add: b64_val_b64 b64_ne_pad)
next
  case (4 a b c bs)
  then have "a < 256" "b < 256" "c < 256" by simp_all
  with 4 show ?case by (simp add: b64_val_b64 b64_ne_pad)
qed

lemma base64_decode_toString: "base64_decode (toString_base64 buf) = buf"
proof -
  have "\<forall>b\<in>set (map unat buf). b < 256"
  proof
    fix b assume "b \<in> set (map unat buf)"
    then obtain w :: byte where "b = unat w" by auto
    then show "b < 256" using unsigned_less [of w, where 'a = nat] by simp
  qed
  then show ?thesis
    by (simp add: base64_decode_def toString_base64_def b64_roundtrip comp_def)
qed

lemma pack_binary_ok:
  assumes "- (2 ^ 63) \<le> e" and "e < 2 ^ 63"
    and "length (Buffer_from iv) \<le> 65535" and "length enc \<le> 65535"
  shows "pack_binary e iv enc = Inr (envelope e (Buffer_from iv) enc)"
  using assms
  by (simp add: pack_binary_def envelope_def Let_def bindE_def writeBigInt64BE_def
      writeUInt16BE_def copy_def put_bytes_def Buffer_alloc_def length_be_bytes)

lemma pack_binary_expire_range:
  "e < - (2 ^ 63) \<or> 2 ^ 63 \<le> e \<Longrightarrow> pack_binary e iv enc = Inl (ERR_OUT_OF_RANGE e)"
  by (auto simp add: pack_binary_def Let_def bindE_def writeBigInt64BE_def)

lemma pack_binary_InrD:
  assumes "pack_binary e iv enc = Inr buf"
  shows "- (2 ^ 63) \<le> e \<and> e < 2 ^ 63 \<and> length (Buffer_from iv) \<le> 65535
    \<and> length enc \<le> 65535 \<and> buf = envelope e (Buffer_from iv) enc"
proof -
  have e: "- (2 ^ 63) \<le> e \<and> e < 2 ^ 63"
    using assms pack_binary_expire_range [of e iv enc] by fastforce
  have iv: "length (Buffer_from iv) \<le> 65535"
  proof (rule ccontr)
    assume "\<not> length (Buffer_from iv) \<le> 65535"
    with e have "pack_binary e iv enc = Inl (ERR_OUT_OF_RANGE (int (length (Buffer_from iv))))"
      by (simp add: pack_binary_def Let_def bindE_def writeBigInt64BE_def writeUInt16BE_def
          Buffer_alloc_def put_bytes_def length_be_bytes)
    with assms show False by simp
  qed
  have enc: "length enc \<le> 65535"
  proof (rule ccontr)
    assume "\<not> length enc \<le> 65535"
    with e iv have "pack_binary e iv enc = Inl (ERR_OUT_OF_RANGE (int (length enc)))"
      by (simp add: pack_binary_def Let_def bindE_def writeBigInt64BE_def writeUInt16BE_def
          copy_def put_bytes_def Buffer_alloc_def length_be_bytes)
    with assms show False by simp
  qed
  from e iv enc assms show ?thesis by (simp add: pack_binary_ok)
qed

lemma envelope_parts:
  assumes "length ivb = 16"
  shows "take 16 (drop 10 (envelope e ivb enc)) = ivb" and "drop 28 (envelope e ivb enc) = enc"
    and "be_uint (take 2 (drop 8 (envelope e ivb enc))) = 16"
  using assms by (simp_all add: envelope_def length_be_bytes be_uint_be_bytes)

section \<open>The draws: IV and nonce\<close>

lemma draws_okD: "draws_ok rnd \<Longrightarrow> i < 17 \<Longrightarrow> is_draw (rnd i)"
  by (simp add: draws_ok_def list_all_iff)

lemma draws_ok_Suc: "draws_ok rnd \<Longrightarrow> \<forall>i<16. is_draw (rnd (Suc i))"
  by (simp add: draws_okD)

lemma makeRandomIv_map:
  assumes "\<forall>i<16. is_draw (rnd i)"
  shows "makeRandomIv rnd = map (\<lambda>i. chars ! nat (Math_floor_times 36 (rnd i))) [0..<16]"
proof -
  have len: "length chars = 36" by (simp add: chars_def)
  have one: "char_at chars (Math_floor_times (int (length chars)) (rnd i)) =
      [chars ! nat (Math_floor_times 36 (rnd i))]"
    if "i < 16" for i
  proof -
    from assms that have "is_draw (rnd i)" by simp
    from Math_floor_times_36 [OF this] show ?thesis by (simp add: char_at_def len)
  qed
  have "concat (map (\<lambda>i. char_at chars (Math_floor_times (int (length chars)) (rnd i))) ks) =
      map (\<lambda>i. chars ! nat (Math_floor_times 36 (rnd i))) ks"
    if "\<forall>k\<in>set ks. k < 16" for ks
    using that by (induction ks) (simp_all add: one)
  from this [of "[0..<16]"] show ?thesis by (simp add: makeRandomIv_def)
qed

lemma makeRandomIv_props:
  assumes "\<forall>i<16. is_draw (rnd i)"
  shows "length (makeRandomIv rnd) = 16 \<and> set (makeRandomIv rnd) \<subseteq> set chars"
proof -
  have len: "length chars = 36" by (simp add: chars_def)
  have "chars ! nat (Math_floor_times 36 (rnd i)) \<in> set chars" if "i < 16" for i
  proof -
    from assms that have "is_draw (rnd i)" by simp
    from Math_floor_times_36 [OF this] have "nat (Math_floor_times 36 (rnd i)) < length chars"
      unfolding len by linarith
    then show ?thesis by (rule nth_mem)
  qed
  then show ?thesis by (auto simp add: makeRandomIv_map [OF assms])
qed

lemma chars_ascii: "c \<in> set chars \<Longrightarrow> (of_char c :: nat) < 128"
  by (auto simp: chars_def)

lemma Buffer_from_ascii:
  "\<forall>c\<in>set s. (of_char c :: nat) < 128 \<Longrightarrow> Buffer_from s = map (\<lambda>c. of_nat (of_char c)) s"
  by (induction s) (simp_all add: Buffer_from_def utf8_unit_def)

lemma local_iv_props:
  assumes "draws_ok rnd"
  shows "length (local_iv rnd) = 16" and "set (local_iv rnd) \<subseteq> set chars"
    and "Buffer_from (local_iv rnd) = map (\<lambda>c. of_nat (of_char c)) (local_iv rnd)"
    and "length (Buffer_from (local_iv rnd)) = 16"
proof -
  from makeRandomIv_props [OF draws_ok_Suc [OF assms]]
  show len: "length (local_iv rnd) = 16" and sub: "set (local_iv rnd) \<subseteq> set chars"
    by (simp_all add: local_iv_def)
  from sub have "\<forall>c\<in>set (local_iv rnd). (of_char c :: nat) < 128"
    using chars_ascii by blast
  then show bf: "Buffer_from (local_iv rnd) = map (\<lambda>c. of_nat (of_char c)) (local_iv rnd)"
    by (rule Buffer_from_ascii)
  from len show "length (Buffer_from (local_iv rnd)) = 16"
    by (simp add: bf)
qed

lemma local_iv_nth:
  assumes "draws_ok rnd" and "k < 16"
  shows "local_iv rnd ! k = chars ! nat (Math_floor_times 36 (rnd (Suc k)))"
proof -
  have "local_iv rnd = map (\<lambda>i. chars ! nat (Math_floor_times 36 (rnd (Suc i)))) [0..<16]"
    unfolding local_iv_def by (rule makeRandomIv_map) (rule draws_ok_Suc [OF assms(1)])
  with assms(2) show ?thesis by simp
qed

lemma makeNonce_range:
  assumes "is_draw r"
  shows "0 \<le> makeNonce r" and "makeNonce r \<le> 2147483647"
  using Math_ceil_times_nonce [OF assms] by (simp_all add: makeNonce_def)

section \<open>What a call of \<^verbatim>\<open>generateToken04\<close> returns\<close>

lemma aesEncrypt_ok:
  assumes "length (Buffer_from s) = 32" and "length (Buffer_from iv) = 16"
  shows "aesEncrypt cbc plain (JStr s) iv = Inr (cbc (Buffer_from s) (Buffer_from iv) (Buffer_from plain))"
  using assms by (simp add: aesEncrypt_def createCipheriv_def bindE_def)

lemma aesEncrypt_InrD:
  assumes "aesEncrypt cbc plain (JStr s) iv = Inr enc"
  shows "length (Buffer_from s) = 32 \<and> length (Buffer_from iv) = 16
    \<and> enc = cbc (Buffer_from s) (Buffer_from iv) (Buffer_from plain)"
  using assms by (auto simp add: aesEncrypt_def createCipheriv_def bindE_def split: if_splits)

lemma generateToken04_valid:
  assumes "truthy a" and "typeof a = ''number''" and "u \<noteq> []" and "length s = 32"
  shows "generateToken04 cbc now rnd a (JStr u) (JStr s) eff payload =
    bindE (aesEncrypt cbc (local_plainText now rnd a (JStr u) eff payload) (JStr s) (local_iv rnd))
      (\<lambda>encryptedBuf. bindE (pack_binary (local_expireTime now eff) (local_iv rnd) encryptedBuf)
         (\<lambda>buf. Inr (''04'' @ toString_base64 buf)))"
proof -
  from assms(4) have "s \<noteq> []" by auto
  with assms show ?thesis
    by (simp add: generateToken04_def Let_def local_plainText_def local_iv_def
        local_expireTime_def)
qed

lemma generateToken04_ok:
  assumes "truthy a" and "typeof a = ''number''" and "u \<noteq> []" and "length s = 32"
    and "length (Buffer_from s) = 32" and "draws_ok rnd"
    and "- (2 ^ 63) \<le> local_expireTime now eff" and "local_expireTime now eff < 2 ^ 63"
    and "length (local_encryptedBuf cbc now rnd a (JStr u) s eff payload) \<le> 65535"
  shows "generateToken04 cbc now rnd a (JStr u) (JStr s) eff payload =
    Inr (''04'' @ toString_base64 (envelope (local_expireTime now eff) (Buffer_from (local_iv rnd))
      (local_encryptedBuf cbc now rnd a (JStr u) s eff payload)))"
proof -
  have iv: "length (Buffer_from (local_iv rnd)) = 16"
    using assms(6) by (rule local_iv_props)
  show ?thesis
    using assms iv
    by (simp add: generateToken04_valid aesEncrypt_ok pack_binary_ok bindE_def
        local_encryptedBuf_def)
qed

lemma generateToken04_expire_overflow:
  assumes "truthy a" and "typeof a = ''number''" and "u \<noteq> []" and "length s = 32"
    and "length (Buffer_from s) = 32" and "draws_ok rnd"
    and "local_expireTime now eff < - (2 ^ 63) \<or> 2 ^ 63 \<le> local_expireTime now eff"
  shows "generateToken04 cbc now rnd a (JStr u) (JStr s) eff payload =
    Inl (ERR_OUT_OF_RANGE (local_expireTime now eff))"
proof -
  have iv: "length (Buffer_from (local_iv rnd)) = 16"
    using assms(6) by (rule local_iv_props)
  show ?thesis
    using assms(1-5) iv pack_binary_expire_range [OF assms(7)]
    by (simp add: generateToken04_valid aesEncrypt_ok bindE_def)
qed

lemma generateToken04_InrD:
  assumes "generateToken04 cbc now rnd appId' userId' secret eff payload = Inr tok"
  shows "truthy appId' \<and> typeof appId' = ''number''
    \<and> (\<exists>u s. userId' = JStr u \<and> u \<noteq> [] \<and> secret = JStr s
    \<and> length s = 32 \<and> length (Buffer_from s) = 32 \<and> length (Buffer_from (local_iv rnd)) = 16
    \<and> - (2 ^ 63) \<le> local_expireTime now eff \<and> local_expireTime now eff < 2 ^ 63
    \<and> length (local_encryptedBuf cbc now rnd appId' userId' s eff payload) \<le> 65535
    \<and> tok = ''04'' @ toString_base64 (envelope (local_expireTime now eff)
        (Buffer_from (local_iv rnd))
        (local_encryptedBuf cbc now rnd appId' userId' s eff payload)))"
proof -
  from assms have a: "truthy appId'" "typeof appId' = ''number''"
    by (auto simp add: generateToken04_def split: if_splits)
  from assms a obtain u where u: "userId' = JStr u" "u \<noteq> []"
    by (cases userId') (auto simp add: generateToken04_def split: if_splits)
  from assms a u obtain s where s: "secret = JStr s" "length s = 32"
    by (cases secret) (auto simp add: generateToken04_def split: if_splits)
  let ?plain = "local_plainText now rnd appId' (JStr u) eff payload"
  from assms have g: "bindE (aesEncrypt cbc ?plain (JStr s) (local_iv rnd))
      (\<lambda>encryptedBuf. bindE (pack_binary (local_expireTime now eff) (local_iv rnd) encryptedBuf)
         (\<lambda>buf. Inr (''04'' @ toString_base64 buf))) = Inr tok"
    by (simp add: a u s generateToken04_valid)
  then obtain enc where enc: "aesEncrypt cbc ?plain (JStr s) (local_iv rnd) = Inr enc"
    by (cases "aesEncrypt cbc ?plain (JStr s) (local_iv rnd)") (simp_all add: bindE_def)
  with g obtain buf where buf: "pack_binary (local_expireTime now eff) (local_iv rnd) enc = Inr buf"
      and tok: "tok = ''04'' @ toString_base64 buf"
    by (cases "pack_binary (local_expireTime now eff) (local_iv rnd) enc")
      (auto simp add: bindE_def)
  from aesEncrypt_InrD [OF enc] pack_binary_InrD [OF buf] tok a u s
  show ?thesis by (simp add: local_encryptedBuf_def)
qed

lemma generateToken04_decoded:
  assumes "generateToken04 cbc now rnd a u sec eff p = Inr tok"
  shows "\<exists>s. sec = JStr s \<and> length (Buffer_from (local_iv rnd)) = 16
    \<and> base64_decode (drop 2 tok) = envelope (local_expireTime now eff)
        (Buffer_from (local_iv rnd)) (local_encryptedBuf cbc now rnd a u s eff p)"
  using generateToken04_InrD [OF assms] by (auto simp add: base64_decode_toString)

section \<open>The store\<close>

lemma update_mem: "(k, v) \<in> set (AList.update k v al)"
  by (induction al) auto

lemma map_of_mem: "map_of al k = Some v \<Longrightarrow> v \<in> snd ` set al"
  by (metis image_eqI map_of_SomeD snd_conv)

lemma distinct_keys_values:
  assumes "distinct (map fst al)"
  shows "(v \<in> snd ` set al) = (\<exists>k. map_of al k = Some v)"
proof
  note d = assms
  assume "v \<in> snd ` set al"
  then obtain k where "(k, v) \<in> set al" by force
  with d have "map_of al k = Some v" by (rule map_of_is_SomeI)
  then show "\<exists>k. map_of al k = Some v" ..
next
  assume "\<exists>k. map_of al k = Some v"
  then show "v \<in> snd ` set al" using map_of_mem by fast
qed

lemma parseInt_absent: "parseInt None = JNaN"
  by (simp add: parseInt_def is_space_def is_digit_def)

lemma post_create_room_OkD:
  assumes "post_create_room now sfx date rooms0 creator title' ty = (rooms1, (200, RoomBody rm))"
  shows "\<exists>org. user_organization creator = Some org
    \<and> user_plan creator \<noteq> JStr ''free'' \<and> truthy (user_plan creator) \<and> truthy title'
    \<and> rm = \<lparr>room_id = ''room_'' @ Number_toString now @ ''_'' @ sfx, title = title',
           type = (if ty = JUndefined then JStr ''audio'' else ty), hostId = user_id creator,
           hostName = user_name creator, organization = org, participants = 0,
           createdAt = date, live = True\<rparr>
    \<and> rooms1 = AList.update (room_id rm) rm rooms0"
  using assms
  by (auto simp add: post_create_room_def Let_def split: if_splits option.splits)

lemma post_create_room_ok:
  assumes "user_plan u \<noteq> JStr ''free''" and "truthy (user_plan u)" and "truthy title'"
    and "user_organization u = Some org"
  shows "post_create_room now sfx date rooms u title' ty =
    (AList.update (''room_'' @ Number_toString now @ ''_'' @ sfx)
       \<lparr>room_id = ''room_'' @ Number_toString now @ ''_'' @ sfx, title = title',
         type = (if ty = JUndefined then JStr ''audio'' else ty), hostId = user_id u,
         hostName = user_name u, organization = org, participants = 0,
         createdAt = date, live = True\<rparr> rooms,
     (200, RoomBody \<lparr>room_id = ''room_'' @ Number_toString now @ ''_'' @ sfx, title = title',
         type = (if ty = JUndefined then JStr ''audio'' else ty), hostId = user_id u,
         hostName = user_name u, organization = org, participants = 0,
         createdAt = date, live = True\<rparr>))"
  using assms by (simp add: post_create_room_def Let_def)

lemma is_host_after_create:
  assumes "post_create_room now sfx date rooms0 creator title' ty = (rooms1, (200, RoomBody rm))"
  shows "Map_get rooms1 (JStr (room_id rm)) = Some rm" and "hostId rm = user_id creator"
proof -
  from post_create_room_OkD [OF assms] obtain org where
    rm: "rm = \<lparr>room_id = ''room_'' @ Number_toString now @ ''_'' @ sfx, title = title',
           type = (if ty = JUndefined then JStr ''audio'' else ty), hostId = user_id creator,
           hostName = user_name creator, organization = org, participants = 0,
           createdAt = date, live = True\<rparr>"
    and r1: "rooms1 = AList.update (room_id rm) rm rooms0"
    by blast
  from r1 show "Map_get rooms1 (JStr (room_id rm)) = Some rm"
    by (simp add: Map_get_def update_conv')
  from rm show "hostId rm = user_id creator" by simp
qed

lemma rooms_distinct_create:
  "distinct (map fst rooms) \<Longrightarrow>
     distinct (map fst (fst (post_create_room now sfx date rooms u title' ty)))"
  by (simp add: post_create_room_def Let_def distinct_update split: option.splits)

lemma rooms_distinct_close:
  "distinct (map fst rooms) \<Longrightarrow> distinct (map fst (fst (delete_close rooms u rid)))"
  by (simp add: delete_close_def distinct_delete split: option.splits)

section \<open>The library functions on examples\<close>

lemma example_base64: "toString_base64 [1, 2, 3, 4] = ''AQIDBA=='' \<and> toString_base64 [77, 97, 110] = ''TWFu''"
  by (simp add: toString_base64_def b64_def b64chars_def)

lemma example_json:
  \<open>JSON_stringify (tokenInfo (JNum 7) (JStr ''u1'') 1073741824 1700000000 1700003600 []) =
     ''{"app_id":7,"user_id":"u1","nonce":1073741824,"ctime":1700000000,"expire":1700003600,"payload":""}''\<close>
  by (simp add: JSON_stringify_def tokenInfo_def json_quote_def json_escape_def
      Number_toString_def show_double_def show_digits.simps)

lemma example_numbers:
  "Number_toString 1700003600 = ''1700003600'' \<and> Number_toString (- 5) = ''-5''
   \<and> Number_toString 9007199254740992 = ''9007199254740992''
   \<and> Number_toString 9223372036854775808 = ''9223372036854776000''
   \<and> Number_toString 1000000000000000000000 = ''1e+21''
   \<and> Number_toString 1180591620717411303424 = ''1.1805916207174113e+21''"
  by code_simp

lemma example_rounding:
  "js_add 1700000512 9223372035154775040 = 9223372036854775808
   \<and> js_add 1700000001 9007199254740992 = 9007200954740992
   \<and> js_add 1700000000 9223372036854775808 = 9223372038554775552
   \<and> Math_floor_times 36 (6004799503160661, 54) = 12
   \<and> Math_floor_times 36 (4503599627370496, 53) = 18
   \<and> makeNonce (2147483647, 31) = 2147483646"
  by code_simp

lemma example_parseInt_more:
  "parseInt (Some '' 42abc'') = JNum 42 \<and> parseInt (Some ''-5'') = JNum (- 5)
   \<and> parseInt (Some ''abc'') = JNaN \<and> parseInt (Some []) = JNaN \<and> parseInt (Some ''0'') = JNum 0
   \<and> parseInt (Some ''9007199254740993'') = JNum 9007199254740992"
  by code_simp

lemma example_be_bytes: "be_bytes 8 1700003600 = [0, 0, 0, 0, 101, 83, 255, 16] \<and> be_bytes 2 16 = [0, 16]"
  by code_simp

lemma example_utf8: "Buffer_from [CHR ''a'', CHR 0xE9] = [97, 195, 169]"
  by (simp add: Buffer_from_def utf8_unit_def)

lemma example_escapes:
  "json_quote [CHR 0x22, CHR 0x5C, CHR 0x0A, CHR 0x01, CHR ''a''] =
     [CHR 0x22, CHR 0x5C, CHR 0x22, CHR 0x5C, CHR 0x5C, CHR 0x5C, CHR ''n'',
      CHR 0x5C, CHR ''u'', CHR ''0'', CHR ''0'', CHR ''0'', CHR ''1'', CHR ''a'', CHR 0x22]"
  by (simp add: json_quote_def json_escape_def hex_digit_def)

section \<open>Concrete inputs\<close>

lemma length_toy_cipher: "length (toy_cipher key iv plain) = length plain + (16 - length plain mod 16)"
  by (simp add: toy_cipher_def pkcs7_def Let_def)

lemma length_Buffer_from_le: "length (Buffer_from s) \<le> 2 * length s"
  by (induction s) (simp_all add: Buffer_from_def utf8_unit_def Let_def)

lemma toy_cipher_small:
  "length plain \<le> 30000 \<Longrightarrow> length (toy_cipher key iv (Buffer_from plain)) \<le> 65535"
  using length_Buffer_from_le [of plain] by (simp add: length_toy_cipher)

lemma draws_ok_fixed: "draws_ok fixed_draws"
  by (simp add: draws_ok_def fixed_draws_def is_draw_def list_all_iff)

lemma example_key: "length (Buffer_from ''0123456789abcdef0123456789abcdef'') = 32"
  by (simp add: Buffer_from_def utf8_unit_def)

lemma example_nonce: "makeNonce (fixed_draws 0) = 1073741824"
  by code_simp

lemma example_iv: "local_iv fixed_draws = ''iiiiiiiiiiiiiiii''"
  by code_simp

lemma example_plain:
  "length (local_plainText 1700000000123 fixed_draws (JNum 7) (JStr ''u1'') 3600 []) = 98"
  by (simp add: local_plainText_def JSON_stringify_def tokenInfo_def json_quote_def json_escape_def
      Number_toString_def show_double_def show_digits.simps example_nonce js_add_safe)

lemma example_small:
  "length (local_encryptedBuf toy_cipher 1700000000123 fixed_draws (JNum 7) (JStr ''u1'')
     ''0123456789abcdef0123456789abcdef'' 3600 []) \<le> 65535"
  by (simp add: local_encryptedBuf_def toy_cipher_small example_plain)

lemma example_plain_0:
  "length (local_plainText 1700000000123 fixed_draws (JNum 7) (JStr ''u1'') 0 []) = 98"
  by (simp add: local_plainText_def JSON_stringify_def tokenInfo_def json_quote_def json_escape_def
      Number_toString_def show_double_def show_digits.simps example_nonce js_add_safe)

lemma example_overflow:
  "generateToken04 toy_cipher 1700000000123 fixed_draws (JNum 7) (JStr ''u1'')
     (JStr ''0123456789abcdef0123456789abcdef'') 9223372036854775808 [] =
   Inl (ERR_OUT_OF_RANGE 9223372038554775552)"
proof -
  have e: "local_expireTime 1700000000123 9223372036854775808 = 9223372038554775552"
    using example_rounding by (simp add: local_expireTime_def)
  have "generateToken04 toy_cipher 1700000000123 fixed_draws (JNum 7) (JStr ''u1'')
     (JStr ''0123456789abcdef0123456789abcdef'') 9223372036854775808 [] =
     Inl (ERR_OUT_OF_RANGE (local_expireTime 1700000000123 9223372036854775808))"
    by (rule generateToken04_expire_overflow) (simp_all add: example_key draws_ok_fixed e)
  then show ?thesis by (simp add: e)
qed

lemma example_rounds_up:
  "generateToken04 toy_cipher 1700000512000 fixed_draws (JNum 7) (JStr ''u1'')
     (JStr ''0123456789abcdef0123456789abcdef'') 9223372035154775040 [] =
   Inl (ERR_OUT_OF_RANGE 9223372036854775808)"
proof -
  have e: "local_expireTime 1700000512000 9223372035154775040 = 9223372036854775808"
    using example_rounding by (simp add: local_expireTime_def)
  have "generateToken04 toy_cipher 1700000512000 fixed_draws (JNum 7) (JStr ''u1'')
     (JStr ''0123456789abcdef0123456789abcdef'') 9223372035154775040 [] =
     Inl (ERR_OUT_OF_RANGE (local_expireTime 1700000512000 9223372035154775040))"
    by (rule generateToken04_expire_overflow) (simp_all add: example_key draws_ok_fixed e)
  then show ?thesis by (simp add: e)
qed

lemma example_call:
  "generateToken04 toy_cipher 1700000000123 fixed_draws (JNum 7) (JStr ''u1'')
     (JStr ''0123456789abcdef0123456789abcdef'') 3600 [] = Inr example_token"
proof -
  have e: "local_expireTime 1700000000123 3600 = 1700003600"
    by (simp add: local_expireTime_def js_add_safe)
  have "generateToken04 toy_cipher 1700000000123 fixed_draws (JNum 7) (JStr ''u1'')
     (JStr ''0123456789abcdef0123456789abcdef'') 3600 [] =
   Inr (''04'' @ toString_base64 (envelope (local_expireTime 1700000000123 3600)
     (Buffer_from (local_iv fixed_draws))
     (local_encryptedBuf toy_cipher 1700000000123 fixed_draws (JNum 7) (JStr ''u1'')
        ''0123456789abcdef0123456789abcdef'' 3600 [])))"
    by (rule generateToken04_ok)
      (simp_all add: example_key draws_ok_fixed example_small e)
  then show ?thesis by (simp add: example_iv e example_token_def)
qed

lemma example_zero_lifetime:
  "generateToken04 toy_cipher 1700000000123 fixed_draws (JNum 7) (JStr ''u1'')
     (JStr ''0123456789abcdef0123456789abcdef'') 0 [] =
   Inr (''04'' @ toString_base64 (envelope 1700000000 (Buffer_from ''iiiiiiiiiiiiiiii'')
     (local_encryptedBuf toy_cipher 1700000000123 fixed_draws (JNum 7) (JStr ''u1'')
        ''0123456789abcdef0123456789abcdef'' 0 [])))"
proof -
  have e: "local_expireTime 1700000000123 0 = 1700000000"
    by (simp add: local_expireTime_def js_add_safe)
  have small: "length (local_encryptedBuf toy_cipher 1700000000123 fixed_draws (JNum 7)
      (JStr ''u1'') ''0123456789abcdef0123456789abcdef'' 0 []) \<le> 65535"
    by (simp add: local_encryptedBuf_def toy_cipher_small example_plain_0)
  have "generateToken04 toy_cipher 1700000000123 fixed_draws (JNum 7) (JStr ''u1'')
     (JStr ''0123456789abcdef0123456789abcdef'') 0 [] =
   Inr (''04'' @ toString_base64 (envelope (local_expireTime 1700000000123 0)
     (Buffer_from (local_iv fixed_draws))
     (local_encryptedBuf toy_cipher 1700000000123 fixed_draws (JNum 7) (JStr ''u1'')
        ''0123456789abcdef0123456789abcdef'' 0 [])))"
    by (rule generateToken04_ok)
      (simp_all add: example_key draws_ok_fixed small e)
  then show ?thesis by (simp add: example_iv e)
qed

lemma example_short_secret:
  "generateToken04 toy_cipher 1700000000123 fixed_draws (JNum 7) (JStr ''u1'')
     (JStr ''0123456789abcdef'') 3600 [] = Inl (Error ''serverSecret must be 32 chars'')"
  by (simp add: generateToken04_def)

lemma example_parseInt: "parseInt (Some ''7'') = JNum 7"
  by code_simp

lemma example_room_id: "Number_toString 1700000000123 = ''1700000000123''"
  by (simp add: Number_toString_def show_double_def show_digits.simps)

lemma example_create:
  "post_create_room 1700000000123 ''k3x9q'' 1700000000123 [] host_user (JStr ''Sprint Retro'')
     (JStr ''audio'') =
   ([(''room_1700000000123_k3x9q'', example_room)], (200, RoomBody example_room))"
  by (simp add: post_create_room_def Let_def host_user_def example_room_def example_room_id)

section \<open>The serialized claims\<close>

lemma json_quote_plain:
  assumes "\<forall>c\<in>set s. 32 \<le> (of_char c :: nat) \<and> c \<noteq> CHR 0x22 \<and> c \<noteq> CHR 0x5C"
  shows "json_quote s = [CHR 0x22] @ s @ [CHR 0x22]"
proof -
  have one: "json_escape c = [c]"
    if "32 \<le> (of_char c :: nat)" and "c \<noteq> CHR 0x22" and "c \<noteq> CHR 0x5C" for c
  proof -
    from that(1) have "c \<noteq> CHR 0x08" "c \<noteq> CHR 0x0C" "c \<noteq> CHR 0x0A" "c \<noteq> CHR 0x0D" "c \<noteq> CHR 0x09"
      by auto
    with that show ?thesis by (simp add: json_escape_def)
  qed
  from assms have "concat (map json_escape s) = s"
    by (induction s) (simp_all add: one)
  then show ?thesis by (simp add: json_quote_def)
qed

lemma tokenInfo_text:
  \<open>JSON_stringify (tokenInfo (JNum n) (JStr uid) k c e p) =
     ''{"app_id":'' @ Number_toString n @ '',"user_id":'' @ json_quote uid
     @ '',"nonce":'' @ Number_toString k @ '',"ctime":'' @ Number_toString c
     @ '',"expire":'' @ Number_toString e @ '',"payload":'' @ json_quote p @ ''}''\<close>
proof -
  have keys: \<open>json_quote ''app_id'' = ''"app_id"''\<close> \<open>json_quote ''user_id'' = ''"user_id"''\<close>
    \<open>json_quote ''nonce'' = ''"nonce"''\<close> \<open>json_quote ''ctime'' = ''"ctime"''\<close>
    \<open>json_quote ''expire'' = ''"expire"''\<close> \<open>json_quote ''payload'' = ''"payload"''\<close>
    by (simp_all add: json_quote_plain)
  show ?thesis
    by (simp add: JSON_stringify_def tokenInfo_def keys)
qed

lemma Number_toString_safe:
  assumes "0 \<le> x" and "x < 2 ^ 53"
  shows "Number_toString x = show_digits x"
    and "foldl (\<lambda>a c. 10 * a + digit_val c) 0 (Number_toString x) = x"
    and "list_all is_digit (Number_toString x)" and "Number_toString x \<noteq> []"
proof -
  from assms show eq: "Number_toString x = show_digits x"
    by (simp add: Number_toString_def show_double_def)
  from show_digits_back [OF assms(1)]
  show "foldl (\<lambda>a c. 10 * a + digit_val c) 0 (Number_toString x) = x"
    and "list_all is_digit (Number_toString x)" and "Number_toString x \<noteq> []"
    by (simp_all add: eq)
qed

lemma example_plain_text:
  \<open>local_plainText 1700000000123 fixed_draws (JNum 7) (JStr ''u1'') 3600 [] =
     ''{"app_id":7,"user_id":"u1","nonce":1073741824,"ctime":1700000000,"expire":1700003600,"payload":""}''\<close>
  by (simp add: local_plainText_def example_nonce js_add_safe example_json)

lemma example_iv_third: "local_iv third_draws = ''cccccccccccccccc''"
  by code_simp

lemma draws_ok_third: "draws_ok third_draws"
  by (simp add: draws_ok_def third_draws_def is_draw_def list_all_iff)

section \<open>The claims\<close>

text \<open>
  C1, as the code has it. When \<^verbatim>\<open>appId\<close> is a positive integer, \<^verbatim>\<open>userId\<close> a non-empty
  string, the secret a string of 32 characters that are 32 bytes in UTF-8, the lifetime a
  positive integer, the sum \<^verbatim>\<open>createTime + effectiveTimeInSeconds\<close> that the source
  computes (a sum of doubles, \<open>js_add\<close>) below \<open>2 ^ 63\<close>, and the ciphertext at most 65535
  bytes long, \<^verbatim>\<open>generateToken04\<close> returns a string that starts with "04", whose
  base64-decoded rest is the envelope [int64 expiry BE][uint16 IV length BE][IV][uint16
  cipher length BE][cipher], of length 8 + 2 + len(iv) + 2 + len(cipher), and whose first
  eight bytes read as a big-endian signed 64-bit integer are that sum. The sum is the exact
  one when the exact one is below \<open>2 ^ 53\<close>. The two bounds are those of the int64 and
  uint16 fields: beyond them the buffer write throws. No token is returned unless they
  hold and the secret has 32 bytes (\<open>generateToken04_InrD\<close>).
\<close>

theorem generateToken04_wire_format:
  assumes "0 < n" and "to_double n = n" and "u \<noteq> []"
    and "length s = 32" and "length (Buffer_from s) = 32"
    and "0 < eff" and "to_double eff = eff" and "0 \<le> now" and "now < 2 ^ 53"
    and "draws_ok rnd"
    and "js_add (now div 1000) eff < 2 ^ 63"
    and "length (local_encryptedBuf cbc now rnd (JNum n) (JStr u) s eff payload) \<le> 65535"
  shows "\<exists>tok. generateToken04 cbc now rnd (JNum n) (JStr u) (JStr s) eff payload = Inr tok
    \<and> take 2 tok = ''04''
    \<and> base64_decode (drop 2 tok) =
        envelope (js_add (now div 1000) eff) (Buffer_from (local_iv rnd))
          (local_encryptedBuf cbc now rnd (JNum n) (JStr u) s eff payload)
    \<and> length (base64_decode (drop 2 tok)) =
        8 + 2 + length (Buffer_from (local_iv rnd)) + 2
        + length (local_encryptedBuf cbc now rnd (JNum n) (JStr u) s eff payload)
    \<and> readBigInt64BE (base64_decode (drop 2 tok)) = js_add (now div 1000) eff
    \<and> (now div 1000 + eff < 2 ^ 53 \<longrightarrow>
          readBigInt64BE (base64_decode (drop 2 tok)) = now div 1000 + eff)"
proof -
  let ?e = "js_add (now div 1000) eff"
  let ?ivb = "Buffer_from (local_iv rnd)"
  let ?enc = "local_encryptedBuf cbc now rnd (JNum n) (JStr u) s eff payload"
  let ?tok = "''04'' @ toString_base64 (envelope ?e ?ivb ?enc)"
  from assms(8) have c: "0 \<le> now div 1000"
    by (simp add: pos_imp_zdiv_nonneg_iff)
  with assms(6) have "0 \<le> ?e" by (intro js_add_nonneg) simp
  then have lo: "- (2 ^ 63) \<le> ?e" by simp
  from assms(1) have n: "truthy (JNum n)" "typeof (JNum n) = ''number''" by simp_all
  have ret: "generateToken04 cbc now rnd (JNum n) (JStr u) (JStr s) eff payload = Inr ?tok"
    using generateToken04_ok [OF n assms(3,4,5,10), of now eff cbc payload] lo assms(11,12)
    by (simp add: local_expireTime_def)
  have dec: "base64_decode (drop 2 ?tok) = envelope ?e ?ivb ?enc"
    by (simp add: base64_decode_toString)
  have len: "length (envelope ?e ?ivb ?enc) = 8 + 2 + length ?ivb + 2 + length ?enc"
    by (simp add: envelope_def length_be_bytes)
  have rd: "readBigInt64BE (envelope ?e ?ivb ?enc) = ?e"
    unfolding envelope_def using lo assms(11) by (rule readBigInt64BE_be_bytes)
  have ex: "?e = now div 1000 + eff" if "now div 1000 + eff < 2 ^ 53"
    using that c assms(6) by (intro js_add_safe) simp
  have "take 2 ?tok = ''04''" by simp
  with ret dec len rd ex show ?thesis by (metis (no_types))
qed

theorem generateToken04_wire_format_witness:
  "(0::int) < 7 \<and> to_double 7 = 7 \<and> ''u1'' \<noteq> []
   \<and> length ''0123456789abcdef0123456789abcdef'' = 32
   \<and> length (Buffer_from ''0123456789abcdef0123456789abcdef'') = 32
   \<and> (0::int) < 3600 \<and> to_double 3600 = 3600
   \<and> (0::int) \<le> 1700000000123 \<and> (1700000000123::int) < 2 ^ 53 \<and> draws_ok fixed_draws
   \<and> js_add (1700000000123 div 1000) 3600 < 2 ^ 63
   \<and> length (local_encryptedBuf toy_cipher 1700000000123 fixed_draws (JNum 7) (JStr ''u1'')
        ''0123456789abcdef0123456789abcdef'' 3600 []) \<le> 65535
   \<and> (\<exists>tok. generateToken04 toy_cipher 1700000000123 fixed_draws (JNum 7) (JStr ''u1'')
          (JStr ''0123456789abcdef0123456789abcdef'') 3600 [] = Inr tok
        \<and> take 2 tok = ''04''
        \<and> readBigInt64BE (base64_decode (drop 2 tok)) = 1700003600)"
proof -
  have h: "(0::int) < 7" "to_double 7 = 7" "''u1'' \<noteq> []"
    "length ''0123456789abcdef0123456789abcdef'' = 32"
    "(0::int) < 3600" "to_double 3600 = 3600"
    "(0::int) \<le> 1700000000123" "(1700000000123::int) < 2 ^ 53"
    "js_add (1700000000123 div 1000) 3600 < 2 ^ 63"
    by (simp_all add: to_double_safe js_add_safe)
  from generateToken04_wire_format [OF h(1,2,3,4) example_key h(5,6,7,8) draws_ok_fixed h(9)
      example_small]
  have "\<exists>tok. generateToken04 toy_cipher 1700000000123 fixed_draws (JNum 7) (JStr ''u1'')
          (JStr ''0123456789abcdef0123456789abcdef'') 3600 [] = Inr tok
        \<and> take 2 tok = ''04''
        \<and> readBigInt64BE (base64_decode (drop 2 tok)) = 1700003600"
    by (auto simp add: js_add_safe)
  with h example_key draws_ok_fixed example_small show ?thesis by blast
qed

text \<open>
  C1 as the specification states it fails: a lifetime of \<open>2 ^ 63\<close> seconds is a positive
  integer (and a double), and with it the call throws in \<^verbatim>\<open>writeBigInt64BE\<close> and returns
  no token. The value that was out of range is the double sum of the time of creation and
  the lifetime.
\<close>

theorem generateToken04_wire_format_counterexample:
  "generateToken04 toy_cipher 1700000000123 fixed_draws (JNum 7) (JStr ''u1'')
     (JStr ''0123456789abcdef0123456789abcdef'') 9223372036854775808 [] =
     Inl (ERR_OUT_OF_RANGE 9223372038554775552)
   \<and> (0::int) < 7 \<and> ''u1'' \<noteq> [] \<and> length (Buffer_from ''0123456789abcdef0123456789abcdef'') = 32
   \<and> (0::int) < 9223372036854775808"
  using example_overflow example_key by simp

text \<open>
  C2, as the code has it. \<^verbatim>\<open>generateToken04\<close> throws an Error whose message names the
  parameter when \<^verbatim>\<open>appId\<close> is falsy or not a number (0, NaN, undefined, a string), when
  \<^verbatim>\<open>userId\<close> is falsy or not a string (the empty string among them), and when the secret
  is falsy or its \<^verbatim>\<open>length\<close> is not 32 characters. The checks run in this order and
  before the clock, the draws and the cipher are used: the result is the same whatever
  these are, and it is never a token. Nothing checks the lifetime, nor the sign of
  \<^verbatim>\<open>appId\<close>.
\<close>

theorem generateToken04_validation:
  "(\<not> truthy a \<or> typeof a \<noteq> ''number'' \<longrightarrow>
      generateToken04 cbc now rnd a u s eff payload = Inl (Error ''appId must be a number''))
   \<and> (truthy a \<and> typeof a = ''number'' \<and> (\<not> truthy u \<or> typeof u \<noteq> ''string'') \<longrightarrow>
      generateToken04 cbc now rnd a u s eff payload = Inl (Error ''userId must be a string''))
   \<and> (truthy a \<and> typeof a = ''number'' \<and> truthy u \<and> typeof u = ''string''
        \<and> (\<not> truthy s \<or> js_length s \<noteq> Some 32) \<longrightarrow>
      generateToken04 cbc now rnd a u s eff payload = Inl (Error ''serverSecret must be 32 chars''))"
  by (simp add: generateToken04_def)

theorem generateToken04_validation_witness:
  "generateToken04 toy_cipher 1700000000123 fixed_draws (JNum 0) (JStr ''u1'')
     (JStr ''0123456789abcdef0123456789abcdef'') 3600 [] = Inl (Error ''appId must be a number'')
   \<and> generateToken04 toy_cipher 1700000000123 fixed_draws (JNum 7) (JStr [])
     (JStr ''0123456789abcdef0123456789abcdef'') 3600 [] = Inl (Error ''userId must be a string'')
   \<and> generateToken04 toy_cipher 1700000000123 fixed_draws (JNum 7) (JStr ''u1'')
     (JStr ''0123456789abcdef'') 3600 [] = Inl (Error ''serverSecret must be 32 chars'')"
  using generateToken04_validation [where a = "JNum 0" and cbc = toy_cipher
      and now = 1700000000123 and rnd = fixed_draws and u = "JStr ''u1''"
      and s = "JStr ''0123456789abcdef0123456789abcdef''" and eff = 3600 and payload = "[]"]
    generateToken04_validation [where a = "JNum 7" and cbc = toy_cipher
      and now = 1700000000123 and rnd = fixed_draws and u = "JStr []"
      and s = "JStr ''0123456789abcdef0123456789abcdef''" and eff = 3600 and payload = "[]"]
    generateToken04_validation [where a = "JNum 7" and cbc = toy_cipher
      and now = 1700000000123 and rnd = fixed_draws and u = "JStr ''u1''"
      and s = "JStr ''0123456789abcdef''" and eff = 3600 and payload = "[]"]
  by simp

text \<open>
  C2 as the specification states it fails: a lifetime of 0 seconds is not positive, and the
  call returns a token, whose expiry is the time of creation.
\<close>

theorem generateToken04_validation_counterexample:
  "generateToken04 toy_cipher 1700000000123 fixed_draws (JNum 7) (JStr ''u1'')
     (JStr ''0123456789abcdef0123456789abcdef'') 0 [] =
   Inr (''04'' @ toString_base64 (envelope 1700000000 (Buffer_from ''iiiiiiiiiiiiiiii'')
     (local_encryptedBuf toy_cipher 1700000000123 fixed_draws (JNum 7) (JStr ''u1'')
        ''0123456789abcdef0123456789abcdef'' 0 [])))"
  by (rule example_zero_lifetime)

text \<open>
  C3. Closing a room: when no room has the id, the answer is 404 and the store is as it
  was; when the requester is not the host of the room, the answer is 403, the store is as
  it was, and the room is still found under its id and still listed for its organization;
  when the requester is the host, the room is deleted at once, and closing the same id
  again, by anyone, is answered 404.
\<close>

theorem delete_close_outcomes:
  "(map_of rooms rid = None \<longrightarrow>
      delete_close rooms u rid = (rooms, (404, ErrorBody ''Room not found'')))
   \<and> (\<forall>r. map_of rooms rid = Some r \<and> hostId r \<noteq> user_id u \<longrightarrow>
        delete_close rooms u rid = (rooms, (403, ErrorBody ''Only the host can close the room''))
        \<and> map_of (fst (delete_close rooms u rid)) rid = Some r
        \<and> (\<forall>v. user_organization v = Some (organization r) \<and> live r \<longrightarrow>
              (\<exists>rs. get_list (fst (delete_close rooms u rid)) v = (200, RoomsBody rs) \<and> r \<in> set rs)))
   \<and> (\<forall>r. map_of rooms rid = Some r \<and> hostId r = user_id u \<longrightarrow>
        delete_close rooms u rid = (AList.delete rid rooms, (200, MessageBody ''Room closed''))
        \<and> map_of (fst (delete_close rooms u rid)) rid = None
        \<and> (\<forall>v. delete_close (fst (delete_close rooms u rid)) v rid =
              (fst (delete_close rooms u rid), (404, ErrorBody ''Room not found''))))"
proof -
  have nf: "delete_close rooms u rid = (rooms, (404, ErrorBody ''Room not found''))"
    if "map_of rooms rid = None"
    using that by (simp add: delete_close_def)
  have fb: "delete_close rooms u rid =
        (rooms, (403, ErrorBody ''Only the host can close the room''))
      \<and> map_of (fst (delete_close rooms u rid)) rid = Some r
      \<and> (\<forall>v. user_organization v = Some (organization r) \<and> live r \<longrightarrow>
            (\<exists>rs. get_list (fst (delete_close rooms u rid)) v = (200, RoomsBody rs) \<and> r \<in> set rs))"
    if a: "map_of rooms rid = Some r \<and> hostId r \<noteq> user_id u" for r
  proof -
    from a have same: "delete_close rooms u rid =
        (rooms, (403, ErrorBody ''Only the host can close the room''))"
      by (simp add: delete_close_def)
    from a have "r \<in> snd ` set rooms" using map_of_mem by fast
    with same a show ?thesis by (simp add: get_list_def)
  qed
  have ok: "delete_close rooms u rid = (AList.delete rid rooms, (200, MessageBody ''Room closed''))
      \<and> map_of (fst (delete_close rooms u rid)) rid = None
      \<and> (\<forall>v. delete_close (fst (delete_close rooms u rid)) v rid =
            (fst (delete_close rooms u rid), (404, ErrorBody ''Room not found'')))"
    if a: "map_of rooms rid = Some r \<and> hostId r = user_id u" for r
  proof -
    from a have del: "delete_close rooms u rid =
        (AList.delete rid rooms, (200, MessageBody ''Room closed''))"
      by (simp add: delete_close_def)
    have gone: "map_of (AList.delete rid rooms) rid = None"
      by (simp add: delete_conv')
    with del show ?thesis by (simp add: delete_close_def)
  qed
  from nf fb ok show ?thesis by blast
qed

theorem delete_close_outcomes_witness:
  "delete_close [] host_user ''room_1700000000123_k3x9q'' = ([], (404, ErrorBody ''Room not found''))
   \<and> delete_close [(''room_1700000000123_k3x9q'', example_room)] guest_user
        ''room_1700000000123_k3x9q'' =
       ([(''room_1700000000123_k3x9q'', example_room)],
        (403, ErrorBody ''Only the host can close the room''))
   \<and> delete_close [(''room_1700000000123_k3x9q'', example_room)] host_user
        ''room_1700000000123_k3x9q'' = ([], (200, MessageBody ''Room closed''))"
  using delete_close_outcomes [of "[]" "''room_1700000000123_k3x9q''" host_user]
    delete_close_outcomes [of "[(''room_1700000000123_k3x9q'', example_room)]"
      "''room_1700000000123_k3x9q''" guest_user]
    delete_close_outcomes [of "[(''room_1700000000123_k3x9q'', example_room)]"
      "''room_1700000000123_k3x9q''" host_user]
  by (simp add: example_room_def guest_user_def host_user_def)

text \<open>
  C4. A caller whose plan is "free" or absent is answered 403 "premium_required" by the
  token route, whatever the room id in the request and whatever the store and the
  configuration. A caller with another plan who sends a room id, when
  \<^verbatim>\<open>ZEGO_APP_ID\<close> or \<^verbatim>\<open>ZEGO_SERVER_SECRET\<close> is not set, is answered 200 with the
  placeholder token ZEGO_NOT_CONFIGURED and \<^verbatim>\<open>demo: true\<close>.
\<close>

theorem post_token_gates:
  "(user_plan u = JStr ''free'' \<or> \<not> truthy (user_plan u) \<longrightarrow>
      post_token cbc env now rnd rooms u rid =
        (403, PremiumBody ''premium_required'' ''Live Rooms require a Pro subscription.''))
   \<and> (user_plan u \<noteq> JStr ''free'' \<and> truthy (user_plan u) \<and> truthy rid
        \<and> (ZEGO_APP_ID env = None \<or> ZEGO_SERVER_SECRET env = None) \<longrightarrow>
      post_token cbc env now rnd rooms u rid =
        (200, TokenBody \<lparr>token = ''ZEGO_NOT_CONFIGURED'', userId = user_id u,
           userName = user_name u, roomId = rid, appId = JNum 0, isHost = None,
           demo = Some True\<rparr>))"
  by (auto simp add: post_token_def Let_def parseInt_absent env_value_def)

theorem post_token_gates_witness:
  "post_token toy_cipher example_env 1700000000123 fixed_draws [] free_user (JStr ''nowhere'') =
     (403, PremiumBody ''premium_required'' ''Live Rooms require a Pro subscription.'')
   \<and> post_token toy_cipher \<lparr>ZEGO_APP_ID = None, ZEGO_SERVER_SECRET = None\<rparr> 1700000000123
        fixed_draws [] host_user (JStr ''nowhere'') =
     (200, TokenBody \<lparr>token = ''ZEGO_NOT_CONFIGURED'', userId = ''u1'', userName = ''Ann'',
        roomId = JStr ''nowhere'', appId = JNum 0, isHost = None, demo = Some True\<rparr>)"
  using post_token_gates [of free_user toy_cipher example_env 1700000000123 fixed_draws "[]"
      "JStr ''nowhere''"]
    post_token_gates [of host_user toy_cipher "\<lparr>ZEGO_APP_ID = None, ZEGO_SERVER_SECRET = None\<rparr>"
      1700000000123 fixed_draws "[]" "JStr ''nowhere''"]
  by (simp add: free_user_def host_user_def)

text \<open>
  C5 does not hold of the code. The nonce is \<^verbatim>\<open>Math.ceil((-2147483648 + 4294967295) * r)\<close>
  for the draw \<open>r\<close>, the ceiling of the double product of 2147483647 and \<open>r\<close>: it is
  never negative, so half of the signed 32-bit range that the comment in the source names
  cannot occur. This nonce is the one serialized into the claims. (At the draw
  \<open>1 - 2 ^ -31\<close> the double product is 2147483646 and so is the nonce.)
\<close>

theorem nonce_never_negative:
  assumes "draws_ok rnd"
  shows "0 \<le> makeNonce (rnd 0) \<and> makeNonce (rnd 0) \<le> 2147483647
    \<and> local_plainText now rnd a u eff p =
        JSON_stringify (tokenInfo a u (makeNonce (rnd 0)) (now div 1000)
          (js_add (now div 1000) eff) p)
    \<and> makeNonce (2147483647, 31) = 2147483646"
  using makeNonce_range [OF draws_okD [OF assms, of 0]] example_rounding
  by (simp add: local_plainText_def)

theorem nonce_never_negative_witness:
  "draws_ok fixed_draws \<and> 0 \<le> makeNonce (fixed_draws 0) \<and> makeNonce (fixed_draws 0) \<le> 2147483647"
  using nonce_never_negative [OF draws_ok_fixed] draws_ok_fixed by simp

text \<open>
  C6, as the code has it. On the configured path of the token route (a plan other than
  "free", a room id, an application id and a secret that are set), the handler calls
  \<^verbatim>\<open>generateToken04\<close> for a lifetime of 3600 seconds. When that call returns a token, the
  answer carries it, and \<^verbatim>\<open>isHost\<close> is true exactly when the store has a room under the
  requested id whose host is the caller, hence false for an id the store does not know.
  When that call throws, the answer is 500 with the message of what was thrown, and has
  neither token nor \<^verbatim>\<open>isHost\<close>. Right after a room was created, a token request for its id
  has \<^verbatim>\<open>isHost\<close> true exactly when the caller is the creator.
\<close>

theorem post_token_configured:
  assumes "user_plan u \<noteq> JStr ''free''" and "truthy (user_plan u)" and "truthy rid"
    and "truthy (parseInt (ZEGO_APP_ID env))" and "ZEGO_SERVER_SECRET env = Some s" and "s \<noteq> []"
  shows "(\<forall>err. generateToken04 cbc now rnd (parseInt (ZEGO_APP_ID env)) (JStr (user_id u))
              (JStr s) 3600 [] = Inl err \<longrightarrow>
            post_token cbc env now rnd rooms u rid = (500, CaughtBody err))
    \<and> (\<forall>tok. generateToken04 cbc now rnd (parseInt (ZEGO_APP_ID env)) (JStr (user_id u))
              (JStr s) 3600 [] = Inr tok \<longrightarrow>
            post_token cbc env now rnd rooms u rid =
              (200, TokenBody \<lparr>token = tok, userId = user_id u, userName = user_name u,
                 roomId = rid, appId = parseInt (ZEGO_APP_ID env),
                 isHost = Some (\<exists>r. Map_get rooms rid = Some r \<and> hostId r = user_id u),
                 demo = None\<rparr>))
    \<and> (\<forall>now0 sfx date rooms0 creator title' ty rm.
          post_create_room now0 sfx date rooms0 creator title' ty = (rooms, (200, RoomBody rm))
          \<and> rid = JStr (room_id rm) \<longrightarrow>
          (\<exists>r. Map_get rooms rid = Some r \<and> hostId r = user_id u) = (user_id u = user_id creator))"
proof (intro conjI allI impI)
  fix err
  assume "generateToken04 cbc now rnd (parseInt (ZEGO_APP_ID env)) (JStr (user_id u))
              (JStr s) 3600 [] = Inl err"
  with assms show "post_token cbc env now rnd rooms u rid = (500, CaughtBody err)"
    by (simp add: post_token_def Let_def env_value_def)
next
  fix tok
  assume "generateToken04 cbc now rnd (parseInt (ZEGO_APP_ID env)) (JStr (user_id u))
              (JStr s) 3600 [] = Inr tok"
  with assms show "post_token cbc env now rnd rooms u rid =
              (200, TokenBody \<lparr>token = tok, userId = user_id u, userName = user_name u,
                 roomId = rid, appId = parseInt (ZEGO_APP_ID env),
                 isHost = Some (\<exists>r. Map_get rooms rid = Some r \<and> hostId r = user_id u),
                 demo = None\<rparr>)"
    by (cases "Map_get rooms rid") (simp_all add: post_token_def Let_def env_value_def)
next
  fix now0 sfx date rooms0 creator title' ty rm
  assume a: "post_create_room now0 sfx date rooms0 creator title' ty = (rooms, (200, RoomBody rm))
          \<and> rid = JStr (room_id rm)"
  then have c: "post_create_room now0 sfx date rooms0 creator title' ty = (rooms, (200, RoomBody rm))"
    by simp
  from is_host_after_create [OF c] a
  show "(\<exists>r. Map_get rooms rid = Some r \<and> hostId r = user_id u) = (user_id u = user_id creator)"
    by auto
qed

theorem post_token_configured_witness:
  "post_create_room 1700000000123 ''k3x9q'' 1700000000123 [] host_user (JStr ''Sprint Retro'')
     (JStr ''audio'') =
     ([(''room_1700000000123_k3x9q'', example_room)], (200, RoomBody example_room))
   \<and> post_token toy_cipher example_env 1700000000123 fixed_draws
     [(''room_1700000000123_k3x9q'', example_room)] host_user (JStr ''room_1700000000123_k3x9q'') =
     (200, TokenBody \<lparr>token = example_token, userId = ''u1'', userName = ''Ann'',
        roomId = JStr ''room_1700000000123_k3x9q'', appId = JNum 7, isHost = Some True,
        demo = None\<rparr>)
   \<and> post_token toy_cipher example_env 1700000000123 fixed_draws
     [(''room_1700000000123_k3x9q'', example_room)] host_user (JStr ''elsewhere'') =
     (200, TokenBody \<lparr>token = example_token, userId = ''u1'', userName = ''Ann'',
        roomId = JStr ''elsewhere'', appId = JNum 7, isHost = Some False, demo = None\<rparr>)
   \<and> post_token toy_cipher
       \<lparr>ZEGO_APP_ID = Some ''7'', ZEGO_SERVER_SECRET = Some ''0123456789abcdef''\<rparr>
       1700000000123 fixed_draws [(''room_1700000000123_k3x9q'', example_room)] host_user
       (JStr ''room_1700000000123_k3x9q'') =
     (500, CaughtBody (Error ''serverSecret must be 32 chars''))"
proof -
  let ?rooms = "[(''room_1700000000123_k3x9q'', example_room)]"
  let ?env2 = "\<lparr>ZEGO_APP_ID = Some ''7'', ZEGO_SERVER_SECRET = Some ''0123456789abcdef''\<rparr>"
  have h: "user_plan host_user \<noteq> JStr ''free''" "truthy (user_plan host_user)"
    "truthy (JStr ''room_1700000000123_k3x9q'')" "truthy (JStr ''elsewhere'')"
    "truthy (parseInt (ZEGO_APP_ID example_env))"
    "ZEGO_SERVER_SECRET example_env = Some ''0123456789abcdef0123456789abcdef''"
    "''0123456789abcdef0123456789abcdef'' \<noteq> []"
    "truthy (parseInt (ZEGO_APP_ID ?env2))"
    "ZEGO_SERVER_SECRET ?env2 = Some ''0123456789abcdef''"
    "''0123456789abcdef'' \<noteq> []"
    by (simp_all add: host_user_def example_env_def example_parseInt)
  have g: "generateToken04 toy_cipher 1700000000123 fixed_draws (parseInt (ZEGO_APP_ID example_env))
      (JStr (user_id host_user)) (JStr ''0123456789abcdef0123456789abcdef'') 3600 [] =
      Inr example_token"
    using example_call by (simp add: host_user_def example_env_def example_parseInt)
  have g2: "generateToken04 toy_cipher 1700000000123 fixed_draws (parseInt (ZEGO_APP_ID ?env2))
      (JStr (user_id host_user)) (JStr ''0123456789abcdef'') 3600 [] =
      Inl (Error ''serverSecret must be 32 chars'')"
    using example_short_secret by (simp add: host_user_def example_parseInt)
  from post_token_configured [OF h(1,2,3,5,6,7), of toy_cipher 1700000000123 fixed_draws ?rooms] g
  have 1: "post_token toy_cipher example_env 1700000000123 fixed_draws ?rooms host_user
      (JStr ''room_1700000000123_k3x9q'') =
     (200, TokenBody \<lparr>token = example_token, userId = ''u1'', userName = ''Ann'',
        roomId = JStr ''room_1700000000123_k3x9q'', appId = JNum 7, isHost = Some True,
        demo = None\<rparr>)"
    by (simp add: host_user_def example_env_def example_parseInt Map_get_def example_room_def)
  from post_token_configured [OF h(1,2,4,5,6,7), of toy_cipher 1700000000123 fixed_draws ?rooms] g
  have 2: "post_token toy_cipher example_env 1700000000123 fixed_draws ?rooms host_user
      (JStr ''elsewhere'') =
     (200, TokenBody \<lparr>token = example_token, userId = ''u1'', userName = ''Ann'',
        roomId = JStr ''elsewhere'', appId = JNum 7, isHost = Some False, demo = None\<rparr>)"
    by (simp add: host_user_def example_env_def example_parseInt Map_get_def example_room_def)
  from post_token_configured [OF h(1,2,3,8,9,10), of toy_cipher 1700000000123 fixed_draws ?rooms] g2
  have 3: "post_token toy_cipher ?env2 1700000000123 fixed_draws ?rooms host_user
      (JStr ''room_1700000000123_k3x9q'') = (500, CaughtBody (Error ''serverSecret must be 32 chars''))"
    by simp
  from example_create 1 2 3 show ?thesis by simp
qed

text \<open>
  C6 as the specification states it fails: with the application id 7 and a secret of 16
  characters the path is the configured one, and the answer is 500, without token and
  without \<^verbatim>\<open>isHost\<close>, for the host of the room as for anyone.
\<close>

theorem post_token_configured_counterexample:
  "post_token toy_cipher short_secret_env 1700000000123 fixed_draws
     [(''room_1700000000123_k3x9q'', example_room)] host_user (JStr ''room_1700000000123_k3x9q'') =
     (500, CaughtBody (Error ''serverSecret must be 32 chars''))
   \<and> user_plan host_user \<noteq> JStr ''free'' \<and> truthy (user_plan host_user)
   \<and> truthy (JStr ''room_1700000000123_k3x9q'')
   \<and> truthy (parseInt (ZEGO_APP_ID short_secret_env))
   \<and> truthy (env_value (ZEGO_SERVER_SECRET short_secret_env))"
  by (simp add: post_token_def Let_def short_secret_env_def host_user_def example_parseInt
      env_value_def generateToken04_def)

text \<open>
  C7. For a caller of organization \<open>org\<close>, the list route answers with the rooms of the
  store whose organization is \<open>org\<close> and whose \<^verbatim>\<open>live\<close> flag is set, each once, in the
  order of the store: with distinct keys, these are exactly the rooms \<open>r\<close> that some id
  maps to, with organization \<open>org\<close> and live. Right after a room was created, the list for
  a caller contains it exactly when the caller's organization is the creator's.
\<close>

theorem get_list_exactly:
  assumes "user_organization u = Some org"
  shows "get_list rooms u =
      (200, RoomsBody (filter (\<lambda>r. organization r = org \<and> live r) (map snd rooms)))
    \<and> (distinct (map fst rooms) \<longrightarrow>
          set (filter (\<lambda>r. organization r = org \<and> live r) (map snd rooms)) =
            {r. (\<exists>k. map_of rooms k = Some r) \<and> organization r = org \<and> live r})
    \<and> (\<forall>now sfx date rooms0 creator title' ty rm.
          post_create_room now sfx date rooms0 creator title' ty = (rooms, (200, RoomBody rm)) \<longrightarrow>
          (\<exists>rs. get_list rooms u = (200, RoomsBody rs)
             \<and> (rm \<in> set rs) = (user_organization creator = Some org)))"
proof (intro conjI allI impI)
  show l: "get_list rooms u =
      (200, RoomsBody (filter (\<lambda>r. organization r = org \<and> live r) (map snd rooms)))"
    using assms by (simp add: get_list_def)
  {
    assume "distinct (map fst rooms)"
    from distinct_keys_values [OF this]
    show "set (filter (\<lambda>r. organization r = org \<and> live r) (map snd rooms)) =
            {r. (\<exists>k. map_of rooms k = Some r) \<and> organization r = org \<and> live r}"
      by auto
  }
  fix now sfx date rooms0 creator title' ty rm
  assume c: "post_create_room now sfx date rooms0 creator title' ty = (rooms, (200, RoomBody rm))"
  from post_create_room_OkD [OF c] obtain orgc where
    oc: "user_organization creator = Some orgc"
    and rm: "organization rm = orgc" "live rm"
    and r1: "rooms = AList.update (room_id rm) rm rooms0"
    by auto
  from r1 have "(room_id rm, rm) \<in> set rooms" by (simp add: update_mem)
  then have "rm \<in> snd ` set rooms" by force
  with rm oc have "(rm \<in> set (filter (\<lambda>r. organization r = org \<and> live r) (map snd rooms)))
      = (user_organization creator = Some org)"
    by auto
  with l show "\<exists>rs. get_list rooms u = (200, RoomsBody rs)
             \<and> (rm \<in> set rs) = (user_organization creator = Some org)"
    by simp
qed

theorem get_list_exactly_witness:
  "post_create_room 1700000000123 ''k3x9q'' 1700000000123 [] host_user (JStr ''Sprint Retro'')
     (JStr ''audio'') =
     ([(''room_1700000000123_k3x9q'', example_room)], (200, RoomBody example_room))
   \<and> user_organization guest_user = Some ''org1''
   \<and> get_list [(''room_1700000000123_k3x9q'', example_room)] guest_user =
       (200, RoomsBody [example_room])
   \<and> user_organization free_user = Some ''org2''
   \<and> get_list [(''room_1700000000123_k3x9q'', example_room)] free_user = (200, RoomsBody [])"
proof -
  have h: "user_organization guest_user = Some ''org1''" "user_organization free_user = Some ''org2''"
    by (simp_all add: guest_user_def free_user_def)
  from get_list_exactly [OF h(1), of "[(''room_1700000000123_k3x9q'', example_room)]"]
  have 1: "get_list [(''room_1700000000123_k3x9q'', example_room)] guest_user =
       (200, RoomsBody [example_room])"
    by (simp add: example_room_def)
  from get_list_exactly [OF h(2), of "[(''room_1700000000123_k3x9q'', example_room)]"]
  have 2: "get_list [(''room_1700000000123_k3x9q'', example_room)] free_user = (200, RoomsBody [])"
    by (simp add: example_room_def)
  from example_create h 1 2 show ?thesis by simp
qed

text \<open>
  C8. The object that \<^verbatim>\<open>generateToken04\<close> serializes has its properties in the order
  app_id, user_id, nonce, ctime, expire, payload (the specification's appId, userId, nonce,
  createdAt, expiresAt, payload), and \<^verbatim>\<open>JSON.stringify\<close> writes them in that order, the
  numbers by \<^verbatim>\<open>Number::toString\<close> and the strings quoted. A number from 0 to below
  \<open>2 ^ 53\<close> is written as its decimal digits, which read back as the number; larger ones
  are written with the shortest digits that round to them, in exponent form from
  \<open>10 ^ 21\<close> on. A string without quote, backslash and control character is written
  between quotes as it is; the others are escaped. The UTF-8 bytes of an ASCII text are
  its character codes, and a character from 128 on takes two bytes. In every token that
  a call returns, the cipher bytes of the envelope are the encryption of the UTF-8 bytes
  of exactly this text, under the secret and the IV of the call; the expiry in it is the
  double sum of the time of creation and the lifetime.
\<close>

theorem claims_serialized_in_order:
  \<open>map fst (tokenInfo a u k c e p) =
     [''app_id'', ''user_id'', ''nonce'', ''ctime'', ''expire'', ''payload'']
   \<and> JSON_stringify (tokenInfo (JNum n) (JStr uid) k c e p) =
       ''{"app_id":'' @ Number_toString n @ '',"user_id":'' @ json_quote uid
       @ '',"nonce":'' @ Number_toString k @ '',"ctime":'' @ Number_toString c
       @ '',"expire":'' @ Number_toString e @ '',"payload":'' @ json_quote p @ ''}''
   \<and> JSON_stringify (tokenInfo (JNum 7) (JStr ''u1'') 1073741824 1700000000 1700003600 []) =
       ''{"app_id":7,"user_id":"u1","nonce":1073741824,"ctime":1700000000,"expire":1700003600,"payload":""}''
   \<and> (0 \<le> x \<and> x < 2 ^ 53 \<longrightarrow>
        Number_toString x = show_digits x
        \<and> foldl (\<lambda>a c. 10 * a + digit_val c) 0 (Number_toString x) = x
        \<and> list_all is_digit (Number_toString x) \<and> Number_toString x \<noteq> [])
   \<and> Number_toString 1700003600 = ''1700003600'' \<and> Number_toString (- 5) = ''-5''
   \<and> Number_toString 9223372036854775808 = ''9223372036854776000''
   \<and> Number_toString 1000000000000000000000 = ''1e+21''
   \<and> Number_toString 1180591620717411303424 = ''1.1805916207174113e+21''
   \<and> ((\<forall>ch\<in>set str. 32 \<le> (of_char ch :: nat) \<and> ch \<noteq> CHR 0x22 \<and> ch \<noteq> CHR 0x5C) \<longrightarrow>
        json_quote str = [CHR 0x22] @ str @ [CHR 0x22])
   \<and> json_quote [CHR 0x22, CHR 0x5C, CHR 0x0A, CHR 0x01, CHR ''a''] =
       [CHR 0x22, CHR 0x5C, CHR 0x22, CHR 0x5C, CHR 0x5C, CHR 0x5C, CHR ''n'',
        CHR 0x5C, CHR ''u'', CHR ''0'', CHR ''0'', CHR ''0'', CHR ''1'', CHR ''a'', CHR 0x22]
   \<and> ((\<forall>ch\<in>set str. (of_char ch :: nat) < 128) \<longrightarrow>
        Buffer_from str = map (\<lambda>ch. of_nat (of_char ch)) str)
   \<and> Buffer_from [CHR ''a'', CHR 0xE9] = [97, 195, 169]
   \<and> (\<forall>tok. generateToken04 cbc now rnd a u sec eff p = Inr tok \<longrightarrow>
        (\<exists>s. sec = JStr s \<and> drop 28 (base64_decode (drop 2 tok)) =
           cbc (Buffer_from s) (Buffer_from (local_iv rnd))
             (Buffer_from (JSON_stringify (tokenInfo a u (makeNonce (rnd 0)) (now div 1000)
                (js_add (now div 1000) eff) p)))))\<close>
proof -
  have keys: "map fst (tokenInfo a u k c e p) =
     [''app_id'', ''user_id'', ''nonce'', ''ctime'', ''expire'', ''payload'']"
    by (simp add: tokenInfo_def)
  have num: "0 \<le> x \<and> x < 2 ^ 53 \<longrightarrow>
        Number_toString x = show_digits x
        \<and> foldl (\<lambda>a c. 10 * a + digit_val c) 0 (Number_toString x) = x
        \<and> list_all is_digit (Number_toString x) \<and> Number_toString x \<noteq> []"
    using Number_toString_safe [of x] by blast
  have nums: "Number_toString 1700003600 = ''1700003600''" "Number_toString (- 5) = ''-5''"
    "Number_toString 9223372036854775808 = ''9223372036854776000''"
    "Number_toString 1000000000000000000000 = ''1e+21''"
    "Number_toString 1180591620717411303424 = ''1.1805916207174113e+21''"
    using example_numbers by - (elim conjE, assumption)+
  have quo: "(\<forall>ch\<in>set str. 32 \<le> (of_char ch :: nat) \<and> ch \<noteq> CHR 0x22 \<and> ch \<noteq> CHR 0x5C) \<longrightarrow>
        json_quote str = [CHR 0x22] @ str @ [CHR 0x22]"
    using json_quote_plain [of str] by blast
  have buf: "(\<forall>ch\<in>set str. (of_char ch :: nat) < 128) \<longrightarrow>
        Buffer_from str = map (\<lambda>ch. of_nat (of_char ch)) str"
    using Buffer_from_ascii [of str] by blast
  have tok: "\<forall>tok. generateToken04 cbc now rnd a u sec eff p = Inr tok \<longrightarrow>
        (\<exists>s. sec = JStr s \<and> drop 28 (base64_decode (drop 2 tok)) =
           cbc (Buffer_from s) (Buffer_from (local_iv rnd))
             (Buffer_from (JSON_stringify (tokenInfo a u (makeNonce (rnd 0)) (now div 1000)
                (js_add (now div 1000) eff) p))))"
  proof (intro allI impI)
    fix tok
    assume "generateToken04 cbc now rnd a u sec eff p = Inr tok"
    from generateToken04_decoded [OF this] obtain s where s: "sec = JStr s"
      and iv: "length (Buffer_from (local_iv rnd)) = 16"
      and dec: "base64_decode (drop 2 tok) = envelope (local_expireTime now eff)
          (Buffer_from (local_iv rnd)) (local_encryptedBuf cbc now rnd a u s eff p)"
      by blast
    from dec envelope_parts(2) [OF iv]
    have "drop 28 (base64_decode (drop 2 tok)) = local_encryptedBuf cbc now rnd a u s eff p"
      by simp
    with s show "\<exists>s. sec = JStr s \<and> drop 28 (base64_decode (drop 2 tok)) =
           cbc (Buffer_from s) (Buffer_from (local_iv rnd))
             (Buffer_from (JSON_stringify (tokenInfo a u (makeNonce (rnd 0)) (now div 1000)
                (js_add (now div 1000) eff) p)))"
      by (simp add: local_encryptedBuf_def local_plainText_def)
  qed
  show ?thesis
    by (intro conjI)
      (rule keys tokenInfo_text example_json num nums quo example_escapes buf example_utf8 tok)+
qed

theorem claims_serialized_in_order_witness:
  \<open>(0::int) \<le> 1700003600 \<and> (1700003600::int) < 2 ^ 53
   \<and> foldl (\<lambda>a c. 10 * a + digit_val c) 0 (Number_toString 1700003600) = 1700003600
   \<and> list_all (\<lambda>ch. 32 \<le> (of_char ch :: nat) \<and> ch \<noteq> CHR 0x22 \<and> ch \<noteq> CHR 0x5C) ''u1''
   \<and> json_quote ''u1'' = ''"u1"''
   \<and> list_all (\<lambda>ch. (of_char ch :: nat) < 128) ''u1''
   \<and> Buffer_from ''u1'' = [117, 49]
   \<and> generateToken04 toy_cipher 1700000000123 fixed_draws (JNum 7) (JStr ''u1'')
       (JStr ''0123456789abcdef0123456789abcdef'') 3600 [] = Inr example_token
   \<and> drop 28 (base64_decode (drop 2 example_token)) =
       toy_cipher (Buffer_from ''0123456789abcdef0123456789abcdef'')
         (Buffer_from ''iiiiiiiiiiiiiiii'')
         (Buffer_from ''{"app_id":7,"user_id":"u1","nonce":1073741824,"ctime":1700000000,"expire":1700003600,"payload":""}'')\<close>
proof -
  note c = claims_serialized_in_order [where cbc = toy_cipher and now = 1700000000123
      and rnd = fixed_draws and a = "JNum 7" and u = "JStr ''u1''"
      and sec = "JStr ''0123456789abcdef0123456789abcdef''" and eff = 3600 and p = "[]"
      and x = 1700003600 and str = "''u1''" and n = 7 and uid = "''u1''" and k = 1073741824
      and c = 1700000000 and e = 1700003600]
  have h: "(0::int) \<le> 1700003600 \<and> (1700003600::int) < 2 ^ 53"
    "\<forall>ch\<in>set ''u1''. 32 \<le> (of_char ch :: nat) \<and> ch \<noteq> CHR 0x22 \<and> ch \<noteq> CHR 0x5C"
    "\<forall>ch\<in>set ''u1''. (of_char ch :: nat) < 128"
    by simp_all
  from c have c1: "(0::int) \<le> 1700003600 \<and> (1700003600::int) < 2 ^ 53 \<longrightarrow>
        Number_toString 1700003600 = show_digits 1700003600
        \<and> foldl (\<lambda>a c. 10 * a + digit_val c) 0 (Number_toString 1700003600) = 1700003600
        \<and> list_all is_digit (Number_toString 1700003600) \<and> Number_toString 1700003600 \<noteq> []"
    by - (elim conjE, assumption)
  from c have c2: "(\<forall>ch\<in>set ''u1''. 32 \<le> (of_char ch :: nat) \<and> ch \<noteq> CHR 0x22 \<and> ch \<noteq> CHR 0x5C) \<longrightarrow>
        json_quote ''u1'' = [CHR 0x22] @ ''u1'' @ [CHR 0x22]"
    by - (elim conjE, assumption)
  from c have c3: "(\<forall>ch\<in>set ''u1''. (of_char ch :: nat) < 128) \<longrightarrow>
        Buffer_from ''u1'' = map (\<lambda>ch. of_nat (of_char ch)) ''u1''"
    by - (elim conjE, assumption)
  from c have c4: "\<forall>tok. generateToken04 toy_cipher 1700000000123 fixed_draws (JNum 7) (JStr ''u1'')
       (JStr ''0123456789abcdef0123456789abcdef'') 3600 [] = Inr tok \<longrightarrow>
        (\<exists>s. JStr ''0123456789abcdef0123456789abcdef'' = JStr s \<and> drop 28 (base64_decode (drop 2 tok)) =
           toy_cipher (Buffer_from s) (Buffer_from (local_iv fixed_draws))
             (Buffer_from (JSON_stringify (tokenInfo (JNum 7) (JStr ''u1'') (makeNonce (fixed_draws 0))
                (1700000000123 div 1000) (js_add (1700000000123 div 1000) 3600) []))))"
    by - (elim conjE, assumption)
  from mp [OF c1 h(1)]
  have n: "foldl (\<lambda>a c. 10 * a + digit_val c) 0 (Number_toString 1700003600) = 1700003600"
    by - (elim conjE, assumption)
  from c2 h(2) have "json_quote ''u1'' = [CHR 0x22] @ ''u1'' @ [CHR 0x22]" by (rule mp)
  then have q: \<open>json_quote ''u1'' = ''"u1"''\<close> by simp
  from c3 h(3) have "Buffer_from ''u1'' = map (\<lambda>ch. of_nat (of_char ch)) ''u1''" by (rule mp)
  then have b: "Buffer_from ''u1'' = [117, 49]" by simp
  from c4 [rule_format, OF example_call] obtain s where
    "JStr ''0123456789abcdef0123456789abcdef'' = JStr s"
    "drop 28 (base64_decode (drop 2 example_token)) =
           toy_cipher (Buffer_from s) (Buffer_from (local_iv fixed_draws))
             (Buffer_from (JSON_stringify (tokenInfo (JNum 7) (JStr ''u1'') (makeNonce (fixed_draws 0))
                (1700000000123 div 1000) (js_add (1700000000123 div 1000) 3600) [])))"
    by (elim exE conjE)
  then have "drop 28 (base64_decode (drop 2 example_token)) =
           toy_cipher (Buffer_from ''0123456789abcdef0123456789abcdef'') (Buffer_from (local_iv fixed_draws))
             (Buffer_from (JSON_stringify (tokenInfo (JNum 7) (JStr ''u1'') (makeNonce (fixed_draws 0))
                (1700000000123 div 1000) (js_add (1700000000123 div 1000) 3600) [])))"
    by simp
  then have t: \<open>drop 28 (base64_decode (drop 2 example_token)) =
       toy_cipher (Buffer_from ''0123456789abcdef0123456789abcdef'')
         (Buffer_from ''iiiiiiiiiiiiiiii'')
         (Buffer_from ''{"app_id":7,"user_id":"u1","nonce":1073741824,"ctime":1700000000,"expire":1700003600,"payload":""}'')\<close>
    using example_plain_text by (simp add: example_iv local_plainText_def)
  have h1: "(0::int) \<le> 1700003600" "(1700003600::int) < 2 ^ 53"
    "list_all (\<lambda>ch. 32 \<le> (of_char ch :: nat) \<and> ch \<noteq> CHR 0x22 \<and> ch \<noteq> CHR 0x5C) ''u1''"
    "list_all (\<lambda>ch. (of_char ch :: nat) < 128) ''u1''"
    by simp_all
  show ?thesis
    by (intro conjI) (rule h1 n q b example_call t)+
qed

text \<open>
  C9. Whatever the sixteen draws of a call are, its IV has exactly 16 characters, the
  \<open>k\<close>-th being the character of 0123456789abcdefghijklmnopqrstuvwxyz at the index
  \<^verbatim>\<open>Math.floor(r * 36)\<close> for the \<open>k\<close>-th of these draws \<open>r\<close>, the product being the one
  of doubles, which is at least 0 and below 36 for every draw; and in every token that
  the call returns, these 16 characters are bytes 10 to 25 of the envelope, in clear,
  and are the IV under which the cipher bytes were encrypted. (At the draw
  0.3333333333333333 the double product is 12 and the character is c; at 0.5 it is i.)
\<close>

theorem iv_sixteen_alphanumeric:
  assumes "draws_ok rnd"
  shows "length (local_iv rnd) = 16
    \<and> (\<forall>k<16. local_iv rnd ! k =
          ''0123456789abcdefghijklmnopqrstuvwxyz'' ! nat (Math_floor_times 36 (rnd (Suc k)))
        \<and> 0 \<le> Math_floor_times 36 (rnd (Suc k)) \<and> Math_floor_times 36 (rnd (Suc k)) < 36)
    \<and> set (local_iv rnd) \<subseteq> set ''0123456789abcdefghijklmnopqrstuvwxyz''
    \<and> Math_floor_times 36 (6004799503160661, 54) = 12
    \<and> Math_floor_times 36 (4503599627370496, 53) = 18
    \<and> (\<forall>tok. generateToken04 cbc now rnd a u sec eff p = Inr tok \<longrightarrow>
          take 16 (drop 10 (base64_decode (drop 2 tok))) =
            map (\<lambda>c. of_nat (of_char c)) (local_iv rnd)
          \<and> (\<exists>s. sec = JStr s \<and> drop 28 (base64_decode (drop 2 tok)) =
                cbc (Buffer_from s) (map (\<lambda>c. of_nat (of_char c)) (local_iv rnd))
                  (Buffer_from (local_plainText now rnd a u eff p))))"
proof (intro conjI allI impI)
  show "length (local_iv rnd) = 16" using assms by (rule local_iv_props)
next
  fix k :: nat assume k: "k < 16"
  with assms show "local_iv rnd ! k =
      ''0123456789abcdefghijklmnopqrstuvwxyz'' ! nat (Math_floor_times 36 (rnd (Suc k)))"
    by (simp add: local_iv_nth chars_def)
  from k have "Suc k < 17" by simp
  from draws_okD [OF assms this] have d: "is_draw (rnd (Suc k))" .
  from Math_floor_times_36 [OF d]
  show "0 \<le> Math_floor_times 36 (rnd (Suc k))" and "Math_floor_times 36 (rnd (Suc k)) < 36" .
next
  show "set (local_iv rnd) \<subseteq> set ''0123456789abcdefghijklmnopqrstuvwxyz''"
    using local_iv_props(2) [OF assms] by (simp add: chars_def)
next
  show "Math_floor_times 36 (6004799503160661, 54) = 12"
    and "Math_floor_times 36 (4503599627370496, 53) = 18"
    using example_rounding by - (elim conjE, assumption)+
next
  fix tok
  assume "generateToken04 cbc now rnd a u sec eff p = Inr tok"
  from generateToken04_decoded [OF this] obtain s where s: "sec = JStr s"
    and iv: "length (Buffer_from (local_iv rnd)) = 16"
    and dec: "base64_decode (drop 2 tok) = envelope (local_expireTime now eff)
        (Buffer_from (local_iv rnd)) (local_encryptedBuf cbc now rnd a u s eff p)"
    by blast
  note bf = local_iv_props(3) [OF assms]
  from dec envelope_parts(1) [OF iv]
  show "take 16 (drop 10 (base64_decode (drop 2 tok))) =
      map (\<lambda>c. of_nat (of_char c)) (local_iv rnd)"
    by (simp add: bf)
  from dec envelope_parts(2) [OF iv]
  have "drop 28 (base64_decode (drop 2 tok)) = local_encryptedBuf cbc now rnd a u s eff p"
    by simp
  with s show "\<exists>s. sec = JStr s \<and> drop 28 (base64_decode (drop 2 tok)) =
                cbc (Buffer_from s) (map (\<lambda>c. of_nat (of_char c)) (local_iv rnd))
                  (Buffer_from (local_plainText now rnd a u eff p))"
    by (simp add: local_encryptedBuf_def bf)
qed

theorem iv_sixteen_alphanumeric_witness:
  "draws_ok fixed_draws \<and> local_iv fixed_draws = ''iiiiiiiiiiiiiiii''
   \<and> length (local_iv fixed_draws) = 16
   \<and> set (local_iv fixed_draws) \<subseteq> set ''0123456789abcdefghijklmnopqrstuvwxyz''
   \<and> generateToken04 toy_cipher 1700000000123 fixed_draws (JNum 7) (JStr ''u1'')
       (JStr ''0123456789abcdef0123456789abcdef'') 3600 [] = Inr example_token
   \<and> take 16 (drop 10 (base64_decode (drop 2 example_token))) =
       [105, 105, 105, 105, 105, 105, 105, 105, 105, 105, 105, 105, 105, 105, 105, 105]
   \<and> draws_ok third_draws \<and> local_iv third_draws = ''cccccccccccccccc''
   \<and> length (local_iv third_draws) = 16"
proof -
  note c = iv_sixteen_alphanumeric [OF draws_ok_fixed, where cbc = toy_cipher
      and now = 1700000000123 and a = "JNum 7" and u = "JStr ''u1''"
      and sec = "JStr ''0123456789abcdef0123456789abcdef''" and eff = 3600 and p = "[]"]
  from c have a1: "length (local_iv fixed_draws) = 16"
    by - (elim conjE, assumption)
  from c have a2: "set (local_iv fixed_draws) \<subseteq> set ''0123456789abcdefghijklmnopqrstuvwxyz''"
    by - (elim conjE, assumption)
  from c have a3: "\<forall>tok. generateToken04 toy_cipher 1700000000123 fixed_draws (JNum 7) (JStr ''u1'')
       (JStr ''0123456789abcdef0123456789abcdef'') 3600 [] = Inr tok \<longrightarrow>
          take 16 (drop 10 (base64_decode (drop 2 tok))) =
            map (\<lambda>c. of_nat (of_char c)) (local_iv fixed_draws)
          \<and> (\<exists>s. JStr ''0123456789abcdef0123456789abcdef'' = JStr s
               \<and> drop 28 (base64_decode (drop 2 tok)) =
                toy_cipher (Buffer_from s) (map (\<lambda>c. of_nat (of_char c)) (local_iv fixed_draws))
                  (Buffer_from (local_plainText 1700000000123 fixed_draws (JNum 7) (JStr ''u1'') 3600 [])))"
    by - (elim conjE, assumption)
  from a3 [rule_format, OF example_call]
  have "take 16 (drop 10 (base64_decode (drop 2 example_token))) =
       map (\<lambda>c. of_nat (of_char c)) (local_iv fixed_draws)"
    by - (elim conjE, assumption)
  then have b: "take 16 (drop 10 (base64_decode (drop 2 example_token))) =
       [105, 105, 105, 105, 105, 105, 105, 105, 105, 105, 105, 105, 105, 105, 105, 105]"
    by (simp add: example_iv)
  from iv_sixteen_alphanumeric [OF draws_ok_third, where cbc = toy_cipher
      and now = 1700000000123 and a = "JNum 7" and u = "JStr ''u1''"
      and sec = "JStr ''0123456789abcdef0123456789abcdef''" and eff = 3600 and p = "[]"]
  have d: "length (local_iv third_draws) = 16"
    by - (elim conjE, assumption)
  show ?thesis
    by (intro conjI)
      (rule draws_ok_fixed example_iv a1 a2 example_call b draws_ok_third example_iv_third d)+
qed

text \<open>
  C10. The create route does not check \<^verbatim>\<open>type\<close>: for a caller with a plan other than
  "free", a truthy title and an organization, the room is created and stored under its id
  with the \<^verbatim>\<open>type\<close> of the request as it came, whatever value that is, and with "audio"
  when the request has none.
\<close>

theorem create_room_kind_unchecked:
  assumes "user_plan u \<noteq> JStr ''free''" and "truthy (user_plan u)" and "truthy title'"
    and "user_organization u = Some org"
  shows "\<exists>rooms1 rm. post_create_room now sfx date rooms u title' ty = (rooms1, (200, RoomBody rm))
    \<and> type rm = (if ty = JUndefined then JStr ''audio'' else ty)
    \<and> map_of rooms1 (room_id rm) = Some rm"
  using post_create_room_ok [OF assms, of now sfx date rooms ty]
  by (simp add: update_conv')

theorem create_room_kind_unchecked_witness:
  "(\<exists>rooms1 rm. post_create_room 1700000000123 ''k3x9q'' 1700000000123 [] host_user
       (JStr ''Sprint Retro'') (JStr ''hologram'') = (rooms1, (200, RoomBody rm))
     \<and> type rm = JStr ''hologram'')
   \<and> (\<exists>rooms1 rm. post_create_room 1700000000123 ''k3x9q'' 1700000000123 [] host_user
       (JStr ''Sprint Retro'') JUndefined = (rooms1, (200, RoomBody rm))
     \<and> type rm = JStr ''audio'')"
proof -
  have h: "user_plan host_user \<noteq> JStr ''free''" "truthy (user_plan host_user)"
    "truthy (JStr ''Sprint Retro'')" "user_organization host_user = Some ''org1''"
    by (simp_all add: host_user_def)
  from create_room_kind_unchecked [OF h, of 1700000000123 "''k3x9q''" 1700000000123 "[]"
      "JStr ''hologram''"]
    create_room_kind_unchecked [OF h, of 1700000000123 "''k3x9q''" 1700000000123 "[]" JUndefined]
  show ?thesis by auto
qed

end
